theory Spec2Isabelle
  imports Main "HOL-Library.Sublist" "HOL-Library.Monad_Syntax"
begin

section \<open>Data model of \<open>vinetrimmer/utils/widevine/device.py\<close>\<close>

text \<open>
  Python \<open>bytes\<close> are lists of 8-bit characters; a Python \<open>str\<close> that is handed to
  \<open>base64.b64decode\<close> is a list of characters as well. An argument that the source
  tests with \<open>isinstance(x, str)\<close> is a value of \<open>pyarg\<close>.
\<close>

type_synonym bytes = string

datatype pyarg = Bytes bytes | Str string

text \<open>
  Every failure of the source is a \<open>raise ValueError(...)\<close> or an exception of a library
  call. The first seven constructors are the \<open>ValueError\<close>s that the source raises itself:
  \<^item> \<open>MissingIdentity\<close>: "No client identification blob is available for this device."
  \<^item> \<open>MissingSigningCapability\<close>: "No device private key is available for this device and
    cdmapi is not installed."
  \<^item> \<open>MissingCertificate\<close>: "Missing signed_device_certificate"
  \<^item> \<open>NoPendingRequest\<close>: "No license request for the session was created. Create one first."
  \<^item> \<open>MalformedResponse\<close>: "Failed to parse license_res ... as SignedLicense"
  \<^item> \<open>SignatureMismatch\<close>: "SignedLicense Signature doesn't match its Message"
  \<^item> \<open>MalformedCertificate\<close>: "Certificate could not be parsed as a SignedMessage" and
    "Certificate's message could not be parsed as a SignedDeviceCertificate"
  \<^item> \<open>MalformedClientId\<close>, \<open>MalformedVmp\<close>: the two \<open>ValueError\<close>s of \<open>__init__\<close>.
  The others are exceptions that escape from a library call.
\<close>

datatype error =
    MissingIdentity
  | MissingSigningCapability
  | MissingCertificate
  | NoPendingRequest
  | MalformedResponse
  | SignatureMismatch
  | MalformedCertificate
  | MalformedClientId
  | MalformedVmp
  | Base64Error
  | CryptoError
  | EnumNameError
  | UnicodeDecodeError
  | TypeError
  | AttributeError
  | KeyError
  | StructError

subsection \<open>Protocol messages\<close>

text \<open>
  The protobuf classes of \<open>widevine_pb2\<close> are records of the fields that the source reads
  or writes; what the source never touches is one opaque field. Their parsers and
  serialisers belong to the protobuf library and are parameters (see \<open>lib\<close> below).
\<close>

datatype RsaKey = RsaKey bytes

datatype FileHashes = FileHashes bytes

record ClientIdentification =
  cid_fields :: bytes
  cid_FileHashes :: "FileHashes option"
  cid_SystemId :: int

text \<open>
  Modelled from the spec: the permission fields of an operator session key container are
  boolean; \<open>ListFields()\<close> yields the fields that are set, each with its name and value.
\<close>

record KeyContainer =
  kc_Id :: bytes
  kc_Iv :: bytes
  kc_Key :: bytes
  kc_Type :: int
  kc_OperatorSessionKeyPermissions :: "(string \<times> bool) list"

record License =
  lic_Key :: "KeyContainer list"
  lic_fields :: bytes

record SignedLicense =
  sl_Msg :: License
  sl_Signature :: bytes
  sl_SessionKey :: bytes

record SignedMessage =
  sm_Msg :: bytes

record SignedDeviceCertificate =
  dc_ServiceId :: bytes
  dc_SerialNumber :: bytes
  dc_PublicKey :: bytes

datatype pssh = RawPssh bytes | ParsedPssh bytes

datatype LicenseType = DEFAULT | OFFLINE

datatype RequestType = NEW

datatype ProtocolVersion = VERSION_2_1

datatype MessageType = LICENSE_REQUEST

record EncryptedClientIdentification =
  eci_ServiceId :: string
  eci_ServiceCertificateSerialNumber :: bytes
  eci_EncryptedClientId :: bytes
  eci_EncryptedClientIdIv :: bytes
  eci_EncryptedPrivacyKey :: bytes

record LicenseRequest =
  lr_Pssh :: pssh
  lr_LicenseType :: LicenseType
  lr_RequestId :: bytes
  lr_Type :: RequestType
  lr_RequestTime :: int
  lr_ProtocolVersion :: ProtocolVersion
  lr_KeyControlNonce :: "int option"
  lr_EncryptedClientId :: "EncryptedClientIdentification option"
  lr_ClientId :: "ClientIdentification option"

text \<open>
  \<open>slr_raw\<close> tells the two request classes apart: \<open>SignedLicenseRequestRaw\<close> (whose
  \<open>Pssh\<close> is a bytes field) and \<open>SignedLicenseRequest\<close> (whose \<open>Pssh\<close> is a message).
\<close>

record SignedLicenseRequest =
  slr_raw :: bool
  slr_Type :: MessageType
  slr_Msg :: LicenseRequest
  slr_Signature :: bytes

subsection \<open>Key, session and device\<close>

text \<open>
  Modelled from the spec: the \<open>Key\<close> value type (\<open>vinetrimmer/utils/widevine/key.py\<close>) with
  the four constructor arguments that \<open>parse_license\<close> passes.
\<close>

record Key =
  kid :: bytes
  key_type :: string
  key :: bytes
  permissions :: "string list"

text \<open>
  Modelled from the spec: the license session (\<open>vinetrimmer/utils/widevine/cdm.py\<close>), with
  the attributes that the device methods read and write. The spec's \<open>init_data\<close> is the
  attribute \<open>cenc_header\<close>, its \<open>pending_request\<close> is \<open>license_request\<close>. \<open>derived_keys\<close>
  is a dictionary from role name to key bytes.
\<close>

record Session =
  session_id :: bytes
  cenc_header :: pssh
  raw :: bool
  offline :: bool
  privacy_mode :: bool
  signed_device_certificate :: "SignedDeviceCertificate option"
  license_request :: "SignedLicenseRequest option"
  signed_license :: "SignedLicense option"
  session_key :: "bytes option"
  derived_keys :: "string \<rightharpoonup> bytes"
  keys :: "Key list"

datatype Types = CHROME | ANDROID

text \<open>
  \<open>self.type\<close> is a member of \<open>Types\<close>, or the bare integer that \<open>__init__\<close> keeps when
  its \<open>type\<close> argument is not a string.
\<close>

datatype device_type = TypeEnum Types | TypeInt nat

record LocalDevice =
  d_type :: device_type
  security_level :: int
  flags :: "(string \<times> bool) list option"
  private_key :: "RsaKey option"
  client_id :: "ClientIdentification option"
  vmp :: "FileHashes option"
  system_id :: "int option"

subsection \<open>Library functions\<close>

text \<open>
  The functions of \<open>base64\<close>, \<open>google.protobuf\<close>, \<open>Cryptodome\<close> and \<open>cdmapi\<close> that the
  source calls are parameters of the model. A function that can raise returns an option.
  Randomness (\<open>get_random_bytes\<close>, the PSS salt, the OAEP seed) is an explicit argument.
  \<open>cdmapi_supported\<close> is the module-level flag set by the guarded import.
\<close>

record lib =
  b64decode :: "string \<Rightarrow> bytes option"
  utf8_decode :: "bytes \<Rightarrow> string option"
  SignedLicense_ParseFromString :: "bytes \<Rightarrow> SignedLicense option"
  SignedMessage_ParseFromString :: "bytes \<Rightarrow> SignedMessage option"
  SignedDeviceCertificate_ParseFromString :: "bytes \<Rightarrow> SignedDeviceCertificate option"
  ClientIdentification_ParseFromString :: "bytes \<Rightarrow> ClientIdentification option"
  FileHashes_ParseFromString :: "bytes \<Rightarrow> FileHashes option"
  ClientIdentification_SerializeToString :: "ClientIdentification \<Rightarrow> bytes"
  FileHashes_SerializeToString :: "FileHashes \<Rightarrow> bytes"
  License_SerializeToString :: "License \<Rightarrow> bytes"
  LicenseRequest_SerializeToString :: "bool \<Rightarrow> LicenseRequest \<Rightarrow> bytes"
  SignedLicenseRequest_SerializeToString :: "SignedLicenseRequest \<Rightarrow> bytes"
  KeyType_Name :: "int \<Rightarrow> string option"
  CMAC :: "bytes \<Rightarrow> bytes \<Rightarrow> bytes option"
  HMAC_SHA256 :: "bytes \<Rightarrow> bytes \<Rightarrow> bytes"
  SHA1 :: "bytes \<Rightarrow> bytes"
  AES_CBC_encrypt :: "bytes \<Rightarrow> bytes \<Rightarrow> bytes \<Rightarrow> bytes option"
  AES_CBC_decrypt :: "bytes \<Rightarrow> bytes \<Rightarrow> bytes \<Rightarrow> bytes option"
  pad :: "bytes \<Rightarrow> nat \<Rightarrow> bytes"
  unpad :: "bytes \<Rightarrow> nat \<Rightarrow> bytes option"
  RSA_importKey :: "bytes \<Rightarrow> RsaKey option"
  export_key_DER :: "RsaKey \<Rightarrow> bytes"
  OAEP_encrypt :: "RsaKey \<Rightarrow> bytes \<Rightarrow> bytes \<Rightarrow> bytes option"
  OAEP_decrypt :: "RsaKey \<Rightarrow> bytes \<Rightarrow> bytes option"
  PSS_sign :: "RsaKey \<Rightarrow> bytes \<Rightarrow> bytes \<Rightarrow> bytes option"
  EMSA_PSS_ENCODE :: "bytes \<Rightarrow> bytes \<Rightarrow> bytes option"
  cdmapi_supported :: bool
  cdmapi_encrypt :: "bytes \<Rightarrow> bytes option"
  cdmapi_decrypt :: "bytes \<Rightarrow> bytes option"

section \<open>\<open>LocalDevice.parse_license\<close>\<close>

text \<open>
  \<open>if isinstance(x, str): x = base64.b64decode(x)\<close>, shared by \<open>set_service_certificate\<close>
  and \<open>parse_license\<close>.
\<close>

definition assume_base64 :: "lib \<Rightarrow> pyarg \<Rightarrow> bytes option" where
  "assume_base64 L x = (case x of Str t \<Rightarrow> b64decode L t | Bytes b \<Rightarrow> Some b)"

text \<open>
  The nested \<open>get_auth_keys(*i, k, b)\<close>: with more than one index it joins the results for
  each index; with one index it is the CMAC of the index byte followed by \<open>b\<close>.
  \<open>struct.pack("B", x)\<close> raises outside \<open>0..255\<close>, \<open>i[0]\<close> raises on no index, and
  \<open>CMAC.new\<close> raises on a key that is no AES key.
\<close>

fun get_auth_keys :: "lib \<Rightarrow> nat list \<Rightarrow> bytes \<Rightarrow> bytes \<Rightarrow> bytes option" where
  "get_auth_keys L [] k b = None"
| "get_auth_keys L [x] k b = (if x < 256 then CMAC L k (char_of x # b) else None)"
| "get_auth_keys L (x # y # zs) k b =
     map_option concat (those (map (\<lambda>x. get_auth_keys L [x] k b) (x # y # zs)))"

definition enc_key_base :: "bytes \<Rightarrow> bytes" where
  "enc_key_base license_req_msg =
     ''ENCRYPTION'' @ [CHR 0x00] @ license_req_msg @ [CHR 0x00, CHR 0x00, CHR 0x00, CHR 0x80]"

definition auth_key_base :: "bytes \<Rightarrow> bytes" where
  "auth_key_base license_req_msg =
     ''AUTHENTICATION'' @ [CHR 0x00] @ license_req_msg @ [CHR 0x00, CHR 0x00, CHR 0x02, CHR 0x00]"

text \<open>
  Lines 310-313: the session key is unwrapped by \<open>cdmapi\<close> when it is installed and the
  device has no private key, and by RSA-OAEP under the private key otherwise (which
  raises when there is no private key).
\<close>

definition unwrap_session_key :: "lib \<Rightarrow> LocalDevice \<Rightarrow> bytes \<Rightarrow> bytes option" where
  "unwrap_session_key L self wrapped =
     (if cdmapi_supported L \<and> private_key self = None then cdmapi_decrypt L wrapped
      else (case private_key self of None \<Rightarrow> None | Some pk \<Rightarrow> OAEP_decrypt L pk wrapped))"

text \<open>
  Lines 323-335, the loop over \<open>session.signed_license.Msg.Key\<close>. An exception inside the
  body leaves the keys appended so far on the session.
\<close>

definition key_permissions :: "string \<Rightarrow> KeyContainer \<Rightarrow> string list" where
  "key_permissions kt c =
     (if kt = ''OPERATOR_SESSION''
      then map fst (filter (\<lambda>(descriptor, v). v) (kc_OperatorSessionKeyPermissions c))
      else [])"

fun key_loop :: "lib \<Rightarrow> KeyContainer list \<Rightarrow> Session \<Rightarrow> (error + bool) \<times> Session" where
  "key_loop L [] session = (Inr True, session)"
| "key_loop L (c # cs) session =
     (case KeyType_Name L (kc_Type c) of
        None \<Rightarrow> (Inl EnumNameError, session)
      | Some kt \<Rightarrow>
        (case derived_keys session ''enc'' of
           None \<Rightarrow> (Inl KeyError, session)
         | Some enc \<Rightarrow>
           (case AES_CBC_decrypt L enc (kc_Iv c) (kc_Key c) of
              None \<Rightarrow> (Inl CryptoError, session)
            | Some padded \<Rightarrow>
              (case unpad L padded 16 of
                 None \<Rightarrow> (Inl CryptoError, session)
               | Some material \<Rightarrow>
                 key_loop L cs
                   (session\<lparr>keys := keys session @
                      [\<lparr>kid = (if kc_Id c \<noteq> [] then kc_Id c else kt),
                        key_type = kt,
                        key = material,
                        permissions = key_permissions kt c\<rparr>]\<rparr>)))))"

text \<open>
  Lines 314-321: the three derived keys are stored one after the other, then the
  signature of the response is compared with the HMAC under \<open>auth_1\<close>.
\<close>

definition derive_and_verify :: "lib \<Rightarrow> Session \<Rightarrow> bytes \<Rightarrow> SignedLicense \<Rightarrow> bytes
    \<Rightarrow> (error + bool) \<times> Session" where
  "derive_and_verify L session sk signed license_req_msg =
     (case get_auth_keys L [1] sk (enc_key_base license_req_msg) of
        None \<Rightarrow> (Inl CryptoError, session)
      | Some enc \<Rightarrow>
        (let session = session\<lparr>derived_keys := (derived_keys session)(''enc'' \<mapsto> enc)\<rparr> in
         case get_auth_keys L [1, 2] sk (auth_key_base license_req_msg) of
           None \<Rightarrow> (Inl CryptoError, session)
         | Some auth_1 \<Rightarrow>
           (let session = session\<lparr>derived_keys := (derived_keys session)(''auth_1'' \<mapsto> auth_1)\<rparr> in
            case get_auth_keys L [3, 4] sk (auth_key_base license_req_msg) of
              None \<Rightarrow> (Inl CryptoError, session)
            | Some auth_2 \<Rightarrow>
              (let session = session\<lparr>derived_keys := (derived_keys session)(''auth_2'' \<mapsto> auth_2)\<rparr> in
               if HMAC_SHA256 L auth_1 (License_SerializeToString L (sl_Msg signed))
                    \<noteq> sl_Signature signed
               then (Inl SignatureMismatch, session)
               else key_loop L (lic_Key (sl_Msg signed)) session))))"

text \<open>\<open>session.license_request.Msg.SerializeToString()\<close>\<close>

definition request_msg :: "lib \<Rightarrow> SignedLicenseRequest \<Rightarrow> bytes" where
  "request_msg L request = LicenseRequest_SerializeToString L (slr_raw request) (slr_Msg request)"

text \<open>
  The result is the outcome (the exception, or the returned \<open>True\<close>) together with the
  session as the call leaves it: the source assigns to the session as it goes, so a
  raised exception does not undo the assignments made before it.
\<close>

definition parse_license :: "lib \<Rightarrow> LocalDevice \<Rightarrow> Session \<Rightarrow> pyarg \<Rightarrow> (error + bool) \<times> Session" where
  "parse_license L self session license_res =
     (case license_request session of
        None \<Rightarrow> (Inl NoPendingRequest, session)
      | Some request \<Rightarrow>
        (case assume_base64 L license_res of
           None \<Rightarrow> (Inl Base64Error, session)
         | Some res \<Rightarrow>
           (case SignedLicense_ParseFromString L res of
              None \<Rightarrow> (Inl MalformedResponse, session)
            | Some signed \<Rightarrow>
              (let session = session\<lparr>signed_license := Some signed\<rparr>;
                   license_req_msg = request_msg L request
               in case unwrap_session_key L self (sl_SessionKey signed) of
                    None \<Rightarrow> (Inl CryptoError, session)
                  | Some sk \<Rightarrow>
                    derive_and_verify L (session\<lparr>session_key := Some sk\<rparr>) sk signed
                      license_req_msg))))"

section \<open>\<open>LocalDevice.set_service_certificate\<close>\<close>

definition set_service_certificate :: "lib \<Rightarrow> LocalDevice \<Rightarrow> Session \<Rightarrow> pyarg
    \<Rightarrow> error + bool \<times> Session" where
  "set_service_certificate L self session certificate =
     (case assume_base64 L certificate of
        None \<Rightarrow> Inl Base64Error
      | Some cert \<Rightarrow>
        (case SignedMessage_ParseFromString L cert of
           None \<Rightarrow> Inl MalformedCertificate
         | Some signed_message \<Rightarrow>
           (case SignedDeviceCertificate_ParseFromString L (sm_Msg signed_message) of
              None \<Rightarrow> Inl MalformedCertificate
            | Some signed_device_cert \<Rightarrow>
              Inr (True, session\<lparr>signed_device_certificate := Some signed_device_cert,
                                 privacy_mode := True\<rparr>))))"

section \<open>\<open>LocalDevice.get_license_challenge\<close>\<close>

text \<open>
  What the source draws from outside: the clock (\<open>time.time()\<close>), \<open>random.randrange\<close>
  (as the raw draw \<open>rand_nonce\<close>), the two \<open>get_random_bytes(16)\<close> and the randomness
  that OAEP and PSS consume.
\<close>

record environ =
  time_now :: int
  rand_nonce :: nat
  rand_cid_aes_key :: bytes
  rand_cid_iv :: bytes
  rand_oaep_seed :: bytes
  rand_pss_salt :: bytes

text \<open>\<open>random.randrange(1, 2 ** 31)\<close>: some integer \<open>n\<close> with \<open>1 \<le> n < 2 ^ 31\<close>.\<close>

definition randrange_nonce :: "nat \<Rightarrow> int" where
  "randrange_nonce r = 1 + int (r mod (2 ^ 31 - 1))"

text \<open>\<open>self.flags and self.flags.get("send_key_control_nonce")\<close>\<close>

definition send_key_control_nonce :: "LocalDevice \<Rightarrow> bool" where
  "send_key_control_nonce self =
     (case flags self of
        None \<Rightarrow> False
      | Some fl \<Rightarrow> fl \<noteq> [] \<and> map_of fl ''send_key_control_nonce'' = Some True)"

text \<open>Lines 248-265, the privacy-mode branch.\<close>

definition encrypt_client_id :: "lib \<Rightarrow> environ \<Rightarrow> ClientIdentification \<Rightarrow> Session
    \<Rightarrow> error + EncryptedClientIdentification" where
  "encrypt_client_id L env cid session =
     (case signed_device_certificate session of
        None \<Rightarrow> Inl MissingCertificate
      | Some cert \<Rightarrow>
        (case utf8_decode L (dc_ServiceId cert) of
           None \<Rightarrow> Inl UnicodeDecodeError
         | Some service_id \<Rightarrow>
           (case AES_CBC_encrypt L (rand_cid_aes_key env) (rand_cid_iv env)
                   (pad L (ClientIdentification_SerializeToString L cid) 16) of
              None \<Rightarrow> Inl CryptoError
            | Some encrypted \<Rightarrow>
              (case RSA_importKey L (dc_PublicKey cert) of
                 None \<Rightarrow> Inl CryptoError
               | Some pub \<Rightarrow>
                 (case OAEP_encrypt L pub (rand_oaep_seed env) (rand_cid_aes_key env) of
                    None \<Rightarrow> Inl CryptoError
                  | Some wrapped \<Rightarrow>
                    Inr \<lparr>eci_ServiceId = service_id,
                         eci_ServiceCertificateSerialNumber = dc_SerialNumber cert,
                         eci_EncryptedClientId = encrypted,
                         eci_EncryptedClientIdIv = rand_cid_iv env,
                         eci_EncryptedPrivacyKey = wrapped\<rparr>)))))"

text \<open>
  Lines 227-245: the request before the identity is attached. A raw session needs a bytes
  \<open>cenc_header\<close> and a parsed session a message; the other two combinations make the
  protobuf assignment raise \<open>TypeError\<close>.
\<close>

definition pssh_matches :: "bool \<Rightarrow> pssh \<Rightarrow> bool" where
  "pssh_matches r h = (case h of RawPssh b \<Rightarrow> r | ParsedPssh m \<Rightarrow> \<not> r)"

definition request_base :: "environ \<Rightarrow> LocalDevice \<Rightarrow> Session \<Rightarrow> LicenseRequest" where
  "request_base env self session =
     \<lparr>lr_Pssh = cenc_header session,
      lr_LicenseType = (if offline session then OFFLINE else DEFAULT),
      lr_RequestId = session_id session,
      lr_Type = NEW,
      lr_RequestTime = time_now env,
      lr_ProtocolVersion = VERSION_2_1,
      lr_KeyControlNonce =
        (if send_key_control_nonce self then Some (randrange_nonce (rand_nonce env)) else None),
      lr_EncryptedClientId = None,
      lr_ClientId = None\<rparr>"

text \<open>Lines 271-279: the signature, by \<open>cdmapi\<close> or by RSA-PSS under the private key.\<close>

definition sign_request :: "lib \<Rightarrow> environ \<Rightarrow> LocalDevice \<Rightarrow> bytes \<Rightarrow> bytes option" where
  "sign_request L env self msg =
     (if cdmapi_supported L \<and> private_key self = None
      then (case EMSA_PSS_ENCODE L (SHA1 L msg) (rand_pss_salt env) of
              None \<Rightarrow> None
            | Some em \<Rightarrow> cdmapi_encrypt L em)
      else (case private_key self of
              None \<Rightarrow> None
            | Some pk \<Rightarrow> PSS_sign L pk (rand_pss_salt env) (SHA1 L msg)))"

text \<open>
  The session is assigned once, on the last line before the return, so a failure leaves
  it as it was and the result carries the session only on success.
\<close>

definition get_license_challenge :: "lib \<Rightarrow> environ \<Rightarrow> LocalDevice \<Rightarrow> Session
    \<Rightarrow> error + bytes \<times> Session" where
  "get_license_challenge L env self session =
     (case client_id self of
        None \<Rightarrow> Inl MissingIdentity
      | Some cid \<Rightarrow>
        if private_key self = None \<and> \<not> cdmapi_supported L then Inl MissingSigningCapability
        else if \<not> pssh_matches (raw session) (cenc_header session) then Inl TypeError
        else
          (case (if privacy_mode session
                 then (case encrypt_client_id L env cid session of
                         Inl e \<Rightarrow> Inl e
                       | Inr enc_client_id \<Rightarrow>
                           Inr ((request_base env self session)
                                  \<lparr>lr_EncryptedClientId := Some enc_client_id\<rparr>))
                 else Inr ((request_base env self session)\<lparr>lr_ClientId := Some cid\<rparr>)) of
             Inl e \<Rightarrow> Inl e
           | Inr msg \<Rightarrow>
             (case sign_request L env self
                     (LicenseRequest_SerializeToString L (raw session) msg) of
                None \<Rightarrow> Inl CryptoError
              | Some sig \<Rightarrow>
                (let license_request =
                       \<lparr>slr_raw = raw session, slr_Type = LICENSE_REQUEST,
                        slr_Msg = msg, slr_Signature = sig\<rparr>
                 in Inr (SignedLicenseRequest_SerializeToString L license_request,
                         session\<lparr>license_request := Some license_request\<rparr>)))))"

section \<open>The binary device format\<close>

text \<open>
  \<open>WidevineDeviceStruct\<close> is declared with the \<open>construct\<close> library; each declared field
  is modelled by its parser and its builder on a byte stream. A parser returns the value
  and the rest of the stream, and \<open>None\<close> when \<open>construct\<close> raises.

  The value of a parsed or built structure is a \<open>Container\<close>. The \<open>type\<close> entry is a
  name (the parsed enum of a known number), a bare integer (a parsed unknown number, and
  what \<open>dumpb\<close> passes) or a member of \<open>Types\<close> (what \<open>from_dir\<close> passes to \<open>__init__\<close>).
\<close>

datatype type_val = TStr string | TInt nat | TMember Types

record Container =
  c_version :: int
  c_type :: type_val
  c_security_level :: int
  c_flags :: "(string \<times> bool) list option"
  c_private_key_len :: nat
  c_private_key :: "bytes option"
  c_client_id_len :: nat
  c_client_id :: "bytes option"
  c_vmp_len :: "nat option"
  c_vmp :: "bytes option"

definition stream_read :: "nat \<Rightarrow> bytes \<Rightarrow> (bytes \<times> bytes) option" where
  "stream_read n s = (if length s < n then None else Some (take n s, drop n s))"

definition Int8ub_parse :: "bytes \<Rightarrow> (nat \<times> bytes) option" where
  "Int8ub_parse s = (case s of [] \<Rightarrow> None | a # r \<Rightarrow> Some (of_char a, r))"

definition Int16ub_parse :: "bytes \<Rightarrow> (nat \<times> bytes) option" where
  "Int16ub_parse s =
     (case s of a # b # r \<Rightarrow> Some (of_char a * 256 + of_char b, r) | _ \<Rightarrow> None)"

definition Int8ub_build :: "int \<Rightarrow> bytes option" where
  "Int8ub_build v = (if 0 \<le> v \<and> v < 256 then Some [char_of v] else None)"

definition Int16ub_build :: "nat \<Rightarrow> bytes option" where
  "Int16ub_build n = (if n < 65536 then Some [char_of (n div 256), char_of (n mod 256)] else None)"

text \<open>\<open>CEnum(Int8ub, CHROME=1, ANDROID=2)\<close>\<close>

definition Types_value :: "Types \<Rightarrow> nat" where
  "Types_value t = (case t of CHROME \<Rightarrow> 1 | ANDROID \<Rightarrow> 2)"

definition Types_lookup :: "string \<Rightarrow> Types option" where
  "Types_lookup name =
     (if name = ''CHROME'' then Some CHROME
      else if name = ''ANDROID'' then Some ANDROID else None)"

definition type_decode :: "nat \<Rightarrow> type_val" where
  "type_decode n = (if n = 1 then TStr ''CHROME'' else if n = 2 then TStr ''ANDROID'' else TInt n)"

definition type_build :: "type_val \<Rightarrow> bytes option" where
  "type_build v =
     (case v of
        TInt n \<Rightarrow> Int8ub_build (int n)
      | TStr name \<Rightarrow>
          (case Types_lookup name of None \<Rightarrow> None | Some t \<Rightarrow> Int8ub_build (int (Types_value t)))
      | TMember t \<Rightarrow> None)"

text \<open>
  \<open>Padded(1, Optional(BitStruct(Padding(7), "send_key_control_nonce" / Flag)))\<close>: one byte,
  whose lowest bit is the flag; the seven padding bits are skipped when parsing and
  written as zero when building. Building from \<open>None\<close>, or from a dict without the
  entry, falls back to \<open>Pass\<close> and leaves the one pad byte.
\<close>

definition flags_parse :: "bytes \<Rightarrow> ((string \<times> bool) list option \<times> bytes) option" where
  "flags_parse s =
     (case s of
        [] \<Rightarrow> None
      | a # r \<Rightarrow> Some (Some [(''send_key_control_nonce'', odd (of_char a :: nat))], r))"

definition flags_build :: "(string \<times> bool) list option \<Rightarrow> bytes" where
  "flags_build fl =
     (case fl of
        None \<Rightarrow> [CHR 0x00]
      | Some d \<Rightarrow>
          (case map_of d ''send_key_control_nonce'' of
             None \<Rightarrow> [CHR 0x00]
           | Some v \<Rightarrow> [if v then CHR 0x01 else CHR 0x00]))"

text \<open>\<open>Bytes(n)\<close>: building needs a bytes value of exactly the length \<open>n\<close>.\<close>

definition Bytes_build :: "nat \<Rightarrow> bytes option \<Rightarrow> bytes option" where
  "Bytes_build n v = (case v of None \<Rightarrow> None | Some d \<Rightarrow> if length d = n then Some d else None)"

text \<open>
  \<open>"vmp_len" / Optional(Int16ub)\<close> and \<open>"vmp" / If(this.vmp_len, Optional(Bytes(this.vmp_len)))\<close>:
  a failing \<open>Optional\<close> parses to \<open>None\<close> without consuming, and builds nothing.
\<close>

definition vmp_len_parse :: "bytes \<Rightarrow> nat option \<times> bytes" where
  "vmp_len_parse s = (case Int16ub_parse s of None \<Rightarrow> (None, s) | Some (n, r) \<Rightarrow> (Some n, r))"

definition vmp_parse :: "nat option \<Rightarrow> bytes \<Rightarrow> bytes option \<times> bytes" where
  "vmp_parse vl s =
     (case vl of
        None \<Rightarrow> (None, s)
      | Some n \<Rightarrow>
          if n = 0 then (None, s)
          else (case stream_read n s of None \<Rightarrow> (None, s) | Some (d, r) \<Rightarrow> (Some d, r)))"

definition vmp_len_build :: "nat option \<Rightarrow> bytes" where
  "vmp_len_build vl =
     (case vl of
        None \<Rightarrow> []
      | Some n \<Rightarrow> (case Int16ub_build n of None \<Rightarrow> [] | Some b \<Rightarrow> b))"

definition vmp_build :: "nat option \<Rightarrow> bytes option \<Rightarrow> bytes" where
  "vmp_build vl v =
     (case vl of
        None \<Rightarrow> []
      | Some n \<Rightarrow>
          if n = 0 then []
          else (case Bytes_build n v of None \<Rightarrow> [] | Some b \<Rightarrow> b))"

text \<open>\<open>WidevineDeviceStruct.parse\<close>; bytes after the last field are not looked at.\<close>

definition WidevineDeviceStruct_parse :: "bytes \<Rightarrow> Container option" where
  "WidevineDeviceStruct_parse s0 =
     do {
       (signature, s1) \<leftarrow> stream_read 3 s0;
       (if signature = ''WVD'' then Some () else None);
       (version, s2) \<leftarrow> Int8ub_parse s1;
       (ty, s3) \<leftarrow> Int8ub_parse s2;
       (level, s4) \<leftarrow> Int8ub_parse s3;
       (fl, s5) \<leftarrow> flags_parse s4;
       (private_key_len, s6) \<leftarrow> Int16ub_parse s5;
       (private_key, s7) \<leftarrow> stream_read private_key_len s6;
       (client_id_len, s8) \<leftarrow> Int16ub_parse s7;
       (client_id, s9) \<leftarrow> stream_read client_id_len s8;
       (vmp_len, s10) \<leftarrow> Some (vmp_len_parse s9);
       (vmp, s11) \<leftarrow> Some (vmp_parse vmp_len s10);
       Some \<lparr>c_version = int version, c_type = type_decode ty, c_security_level = int level,
             c_flags = fl, c_private_key_len = private_key_len, c_private_key = Some private_key,
             c_client_id_len = client_id_len, c_client_id = Some client_id,
             c_vmp_len = vmp_len, c_vmp = vmp\<rparr>
     }"

text \<open>\<open>WidevineDeviceStruct.build\<close>\<close>

definition WidevineDeviceStruct_build :: "Container \<Rightarrow> bytes option" where
  "WidevineDeviceStruct_build c =
     do {
       version \<leftarrow> Int8ub_build (c_version c);
       ty \<leftarrow> type_build (c_type c);
       level \<leftarrow> Int8ub_build (c_security_level c);
       private_key_len \<leftarrow> Int16ub_build (c_private_key_len c);
       private_key \<leftarrow> Bytes_build (c_private_key_len c) (c_private_key c);
       client_id_len \<leftarrow> Int16ub_build (c_client_id_len c);
       client_id \<leftarrow> Bytes_build (c_client_id_len c) (c_client_id c);
       Some (''WVD'' @ version @ ty @ level @ flags_build (c_flags c)
             @ private_key_len @ private_key @ client_id_len @ client_id
             @ vmp_len_build (c_vmp_len c) @ vmp_build (c_vmp_len c) (c_vmp c))
     }"

definition WidevineDeviceStructVersion :: int where
  "WidevineDeviceStructVersion = 1"

section \<open>\<open>LocalDevice.__init__\<close>, \<open>load\<close> and \<open>dumpb\<close>\<close>

text \<open>
  \<open>__init__\<close> with the keyword arguments it uses. \<open>self.vmp\<close> starts as the empty
  \<open>FileHashes()\<close> message; a non-empty \<open>vmp\<close> blob is parsed into it and copied into the
  client identification.
\<close>

definition init_type :: "type_val \<Rightarrow> device_type option" where
  "init_type v =
     (case v of
        TStr name \<Rightarrow> map_option TypeEnum (Types_lookup name)
      | TInt n \<Rightarrow> Some (TypeInt n)
      | TMember t \<Rightarrow> Some (TypeEnum t))"

definition is_empty_arg :: "bytes option \<Rightarrow> bool" where
  "is_empty_arg v = (case v of None \<Rightarrow> True | Some d \<Rightarrow> d = [])"

definition LocalDevice_init :: "lib \<Rightarrow> type_val \<Rightarrow> int \<Rightarrow> (string \<times> bool) list option
    \<Rightarrow> bytes option \<Rightarrow> bytes option \<Rightarrow> bytes option \<Rightarrow> error + LocalDevice" where
  "LocalDevice_init L ty level fl private_key_arg client_id_arg vmp_arg =
     (case init_type ty of
        None \<Rightarrow> Inl KeyError
      | Some t \<Rightarrow>
        (case (if is_empty_arg private_key_arg then Some None
               else map_option Some (RSA_importKey L (the private_key_arg))) of
           None \<Rightarrow> Inl CryptoError
         | Some pk \<Rightarrow>
           (case client_id_arg of
              None \<Rightarrow> Inl TypeError
            | Some cid_bytes \<Rightarrow>
              (case ClientIdentification_ParseFromString L cid_bytes of
                 None \<Rightarrow> Inl MalformedClientId
               | Some cid \<Rightarrow>
                 (if is_empty_arg vmp_arg
                  then Inr \<lparr>d_type = t, security_level = level, flags = fl, private_key = pk,
                            client_id = Some cid, vmp = Some (FileHashes []),
                            system_id = Some (cid_SystemId cid)\<rparr>
                  else (case FileHashes_ParseFromString L (the vmp_arg) of
                          None \<Rightarrow> Inl MalformedVmp
                        | Some fh \<Rightarrow>
                            Inr \<lparr>d_type = t, security_level = level, flags = fl,
                                 private_key = pk,
                                 client_id = Some (cid\<lparr>cid_FileHashes := Some fh\<rparr>),
                                 vmp = Some fh,
                                 system_id = Some (cid_SystemId cid)\<rparr>))))))"

text \<open>\<open>load\<close> on direct data (the \<open>isinstance(uri, bytes)\<close> branch).\<close>

definition load :: "lib \<Rightarrow> bytes \<Rightarrow> error + LocalDevice" where
  "load L uri =
     (case WidevineDeviceStruct_parse uri of
        None \<Rightarrow> Inl StructError
      | Some c \<Rightarrow>
          LocalDevice_init L (c_type c) (c_security_level c) (c_flags c)
            (c_private_key c) (c_client_id c) (c_vmp c))"

text \<open>
  \<open>dumpb\<close>. \<open>len(x) if x else 0\<close> is the length of \<open>x\<close>, and \<open>0\<close> for \<open>None\<close>;
  \<open>self.type.value\<close> raises \<open>AttributeError\<close> on a bare integer.
\<close>

definition len_or_0 :: "bytes option \<Rightarrow> nat" where
  "len_or_0 v = (case v of None \<Rightarrow> 0 | Some d \<Rightarrow> if d \<noteq> [] then length d else 0)"

definition dumpb :: "lib \<Rightarrow> LocalDevice \<Rightarrow> error + bytes" where
  "dumpb L self =
     (let private_key = map_option (export_key_DER L) (private_key self);
          client_id = map_option (ClientIdentification_SerializeToString L) (client_id self);
          vmp = map_option (FileHashes_SerializeToString L) (vmp self)
      in case d_type self of
           TypeInt n \<Rightarrow> Inl AttributeError
         | TypeEnum t \<Rightarrow>
           (case WidevineDeviceStruct_build
                   \<lparr>c_version = WidevineDeviceStructVersion,
                    c_type = TInt (Types_value t),
                    c_security_level = security_level self,
                    c_flags = flags self,
                    c_private_key_len = len_or_0 private_key,
                    c_private_key = private_key,
                    c_client_id_len = (case client_id of None \<Rightarrow> 0 | Some d \<Rightarrow> length d),
                    c_client_id = client_id,
                    c_vmp_len = Some (case vmp of None \<Rightarrow> 0 | Some d \<Rightarrow> length d),
                    c_vmp = vmp\<rparr> of
              None \<Rightarrow> Inl StructError
            | Some b \<Rightarrow> Inr b))"

section \<open>The specification's words\<close>

text \<open>
  The key derivation as the specification states it, written without the functions of the
  model above. A context is the label, one zero byte, the exact bytes of the inner
  message of the pending request, and the number of key bits asked for (128 for the
  encryption key, 512 for the authentication keys) as four bytes, most significant
  first. \<open>enc\<close> is the CMAC under the session key of the index byte 1 followed by the
  encryption context; \<open>auth_1\<close> is the CMAC for the index byte 1 followed by the one for
  the index byte 2, over the authentication context; \<open>auth_2\<close> likewise for 3 and 4.
\<close>

definition spec_be32 :: "nat \<Rightarrow> bytes" where
  "spec_be32 n = [char_of (n div 16777216), char_of (n div 65536), char_of (n div 256), char_of n]"

definition spec_context :: "string \<Rightarrow> bytes \<Rightarrow> nat \<Rightarrow> bytes" where
  "spec_context label request_bytes bits = label @ CHR 0x00 # request_bytes @ spec_be32 bits"

definition spec_derived_keys :: "lib \<Rightarrow> bytes \<Rightarrow> bytes \<Rightarrow> (bytes \<times> bytes \<times> bytes) option" where
  "spec_derived_keys L sk request_bytes =
     do {
       e1 \<leftarrow> CMAC L sk (CHR 0x01 # spec_context ''ENCRYPTION'' request_bytes 128);
       a1 \<leftarrow> CMAC L sk (CHR 0x01 # spec_context ''AUTHENTICATION'' request_bytes 512);
       a2 \<leftarrow> CMAC L sk (CHR 0x02 # spec_context ''AUTHENTICATION'' request_bytes 512);
       a3 \<leftarrow> CMAC L sk (CHR 0x03 # spec_context ''AUTHENTICATION'' request_bytes 512);
       a4 \<leftarrow> CMAC L sk (CHR 0x04 # spec_context ''AUTHENTICATION'' request_bytes 512);
       Some (e1, a1 @ a2, a3 @ a4)
     }"


section \<open>An executable instance of the library\<close>

text \<open>
  The theorems below hold for every \<open>lib\<close>. To run the model on concrete inputs, this
  section gives one small instance. Its message formats write the fields one after the
  other with a separator byte between them, a bytes field as it is (as the protobuf wire
  format writes a bytes field as it is, after its tag and length). Its cryptographic
  functions are placeholders with the result lengths of the real ones.
\<close>

fun sample_split :: "char \<Rightarrow> bytes \<Rightarrow> bytes list" where
  "sample_split sep [] = [] # []"
| "sample_split sep (c # cs) =
     (if c = sep then [] # sample_split sep cs
      else (case sample_split sep cs of [] \<Rightarrow> [c] # [] | w # ws \<Rightarrow> (c # w) # ws))"

fun sample_join :: "char \<Rightarrow> bytes list \<Rightarrow> bytes" where
  "sample_join sep [] = []"
| "sample_join sep [x] = x"
| "sample_join sep (x # y # r) = x @ sep # sample_join sep (y # r)"

text \<open>The value of a base64 digit, from its character code.\<close>

definition sample_b64_value :: "char \<Rightarrow> nat option" where
  "sample_b64_value c =
     (let n = of_char c :: nat in
      if 65 \<le> n \<and> n \<le> 90 then Some (n - 65)
      else if 97 \<le> n \<and> n \<le> 122 then Some (n - 71)
      else if 48 \<le> n \<and> n \<le> 57 then Some (n + 4)
      else if n = 43 then Some 62
      else if n = 47 then Some 63
      else None)"

fun sample_b64_groups :: "nat list \<Rightarrow> bytes option" where
  "sample_b64_groups (a # b # c # d # r) =
     map_option (\<lambda>t. [char_of (a * 4 + b div 16), char_of (b * 16 + c div 4), char_of (c * 64 + d)] @ t)
       (sample_b64_groups r)"
| "sample_b64_groups [a, b, c] = Some [char_of (a * 4 + b div 16), char_of (b * 16 + c div 4)]"
| "sample_b64_groups [a, b] = Some [char_of (a * 4 + b div 16)]"
| "sample_b64_groups [a] = None"
| "sample_b64_groups [] = Some []"

definition sample_b64decode :: "string \<Rightarrow> bytes option" where
  "sample_b64decode t =
     (case those (map sample_b64_value (takeWhile (\<lambda>c. c \<noteq> CHR ''='') t)) of
        None \<Rightarrow> None
      | Some vs \<Rightarrow> sample_b64_groups vs)"

definition sample_utf8_decode :: "bytes \<Rightarrow> string option" where
  "sample_utf8_decode b = (if list_all (\<lambda>c. (of_char c :: nat) < 128) b then Some b else None)"

definition sample_permission_names :: "string list" where
  "sample_permission_names = [''AllowEncrypt'', ''AllowDecrypt'', ''AllowSign'', ''AllowSignatureVerify'']"

definition sample_permissions :: "bytes \<Rightarrow> (string \<times> bool) list" where
  "sample_permissions p = map (\<lambda>(name, c). (name, c = CHR ''T'')) (zip sample_permission_names p)"

text \<open>A key container is \<open>id,iv,key,type,permissions\<close> with the type as one byte.\<close>

definition sample_parse_container :: "bytes \<Rightarrow> KeyContainer option" where
  "sample_parse_container s =
     (case sample_split (CHR '','') s of
        [i, iv, k, [t], p] \<Rightarrow>
          Some \<lparr>kc_Id = i, kc_Iv = iv, kc_Key = k, kc_Type = int (of_char t),
                kc_OperatorSessionKeyPermissions = sample_permissions p\<rparr>
      | _ \<Rightarrow> None)"

text \<open>
  A signed license is the 32 bytes of the signature, then
  \<open>session key|other fields|container|...|container\<close>.
\<close>

definition sample_SignedLicense_parse :: "bytes \<Rightarrow> SignedLicense option" where
  "sample_SignedLicense_parse s =
     (if drop 31 s = [] then None
      else (case sample_split (CHR ''|'') (drop 32 s) of
              sk # other # cs \<Rightarrow>
                (case those (map sample_parse_container cs) of
                   None \<Rightarrow> None
                 | Some kcs \<Rightarrow>
                     Some \<lparr>sl_Msg = \<lparr>lic_Key = kcs, lic_fields = other\<rparr>,
                           sl_Signature = take 32 s, sl_SessionKey = sk\<rparr>)
            | _ \<Rightarrow> None))"

definition sample_container_bytes :: "KeyContainer \<Rightarrow> bytes" where
  "sample_container_bytes c =
     sample_join (CHR '','')
       [kc_Id c, kc_Iv c, kc_Key c, [char_of (kc_Type c)],
        map (\<lambda>(name, v). if v then CHR ''T'' else CHR ''F'') (kc_OperatorSessionKeyPermissions c)]"

definition sample_License_bytes :: "License \<Rightarrow> bytes" where
  "sample_License_bytes m =
     sample_join (CHR ''|'') (lic_fields m # map sample_container_bytes (lic_Key m))"

definition sample_SignedLicense_bytes :: "SignedLicense \<Rightarrow> bytes" where
  "sample_SignedLicense_bytes m =
     sl_Signature m @ sample_join (CHR ''|'') [sl_SessionKey m, sample_License_bytes (sl_Msg m)]"

definition sample_SignedMessage_parse :: "bytes \<Rightarrow> SignedMessage option" where
  "sample_SignedMessage_parse s = (if s = [] then None else Some \<lparr>sm_Msg = s\<rparr>)"

text \<open>A device certificate is \<open>service id|serial number|public key\<close>.\<close>

definition sample_SignedDeviceCertificate_parse :: "bytes \<Rightarrow> SignedDeviceCertificate option" where
  "sample_SignedDeviceCertificate_parse s =
     (case sample_split (CHR ''|'') s of
        [service, serial, pub] \<Rightarrow>
          Some \<lparr>dc_ServiceId = service, dc_SerialNumber = serial, dc_PublicKey = pub\<rparr>
      | _ \<Rightarrow> None)"

text \<open>
  The protobuf wire format, as far as a parser needs it to tell bytes that decode from
  bytes that do not: a message is a sequence of fields, each a key (a varint holding the
  field number and the wire type) and a value that is a varint, eight bytes, four bytes,
  or a length and that many bytes. The first argument bounds the recursion by the length
  of the input. Groups are not accepted.
\<close>

fun sample_varint :: "nat \<Rightarrow> bytes \<Rightarrow> (nat \<times> bytes) option" where
  "sample_varint 0 s = None"
| "sample_varint (Suc n) [] = None"
| "sample_varint (Suc n) (c # r) =
     (if (of_char c :: nat) < 128 then Some (of_char c, r)
      else (case sample_varint n r of
              None \<Rightarrow> None
            | Some (w, r') \<Rightarrow> Some (of_char c - 128 + 128 * w, r')))"

fun sample_wire_fields :: "nat \<Rightarrow> bytes \<Rightarrow> bool" where
  "sample_wire_fields 0 s = (s = [])"
| "sample_wire_fields (Suc n) s =
     (if s = [] then True
      else (case sample_varint (Suc n) s of
              None \<Rightarrow> False
            | Some (k, r) \<Rightarrow>
                if k div 8 = 0 then False
                else if k mod 8 = 0
                then (case sample_varint (Suc n) r of
                        None \<Rightarrow> False
                      | Some (v, r') \<Rightarrow> sample_wire_fields n r')
                else if k mod 8 = 1
                then (case stream_read 8 r of
                        None \<Rightarrow> False
                      | Some (d, r') \<Rightarrow> sample_wire_fields n r')
                else if k mod 8 = 2
                then (case sample_varint (Suc n) r of
                        None \<Rightarrow> False
                      | Some (len, r') \<Rightarrow>
                          (case stream_read len r' of
                             None \<Rightarrow> False
                           | Some (d, r'') \<Rightarrow> sample_wire_fields n r''))
                else if k mod 8 = 5
                then (case stream_read 4 r of
                        None \<Rightarrow> False
                      | Some (d, r') \<Rightarrow> sample_wire_fields n r')
                else False))"

definition sample_wire_format :: "bytes \<Rightarrow> bool" where
  "sample_wire_format s = sample_wire_fields (length s) s"

text \<open>
  A client identification decodes when its bytes are in the wire format; the fields
  are kept as they are.
\<close>

definition sample_ClientIdentification_parse :: "bytes \<Rightarrow> ClientIdentification option" where
  "sample_ClientIdentification_parse s =
     (if sample_wire_format s
      then Some \<lparr>cid_fields = s, cid_FileHashes = None, cid_SystemId = 0\<rparr>
      else None)"

definition sample_FileHashes_parse :: "bytes \<Rightarrow> FileHashes option" where
  "sample_FileHashes_parse s = (if sample_wire_format s then Some (FileHashes s) else None)"

definition sample_FileHashes_bytes :: "FileHashes \<Rightarrow> bytes" where
  "sample_FileHashes_bytes h = (case h of FileHashes b \<Rightarrow> b)"

definition sample_ClientIdentification_bytes :: "ClientIdentification \<Rightarrow> bytes" where
  "sample_ClientIdentification_bytes c =
     cid_fields c
     @ (case cid_FileHashes c of
          None \<Rightarrow> []
        | Some h \<Rightarrow>
            CHR 0x3A # char_of (length (sample_FileHashes_bytes h)) # sample_FileHashes_bytes h)"

definition sample_pssh_bytes :: "pssh \<Rightarrow> bytes" where
  "sample_pssh_bytes h = (case h of RawPssh b \<Rightarrow> b | ParsedPssh m \<Rightarrow> m)"

definition sample_EncryptedClientIdentification_bytes :: "EncryptedClientIdentification \<Rightarrow> bytes" where
  "sample_EncryptedClientIdentification_bytes e =
     sample_join (CHR '','')
       [eci_ServiceId e, eci_ServiceCertificateSerialNumber e, eci_EncryptedClientId e,
        eci_EncryptedClientIdIv e, eci_EncryptedPrivacyKey e]"

text \<open>
  A license request is \<open>client id|pssh|license type|request id|time|nonce|encrypted
  client id\<close>, an integer as the byte of its low eight bits and an absent field empty.
\<close>

definition sample_LicenseRequest_bytes :: "bool \<Rightarrow> LicenseRequest \<Rightarrow> bytes" where
  "sample_LicenseRequest_bytes r m =
     sample_join (CHR ''|'')
       [case lr_ClientId m of None \<Rightarrow> [] | Some c \<Rightarrow> sample_ClientIdentification_bytes c,
        sample_pssh_bytes (lr_Pssh m),
        (case lr_LicenseType m of DEFAULT \<Rightarrow> ''D'' | OFFLINE \<Rightarrow> ''O''),
        lr_RequestId m,
        [char_of (lr_RequestTime m)],
        (case lr_KeyControlNonce m of None \<Rightarrow> [] | Some n \<Rightarrow> [char_of n]),
        (case lr_EncryptedClientId m of
           None \<Rightarrow> []
         | Some e \<Rightarrow> sample_EncryptedClientIdentification_bytes e)]"

definition sample_SignedLicenseRequest_bytes :: "SignedLicenseRequest \<Rightarrow> bytes" where
  "sample_SignedLicenseRequest_bytes r =
     sample_join (CHR ''|'')
       [sample_LicenseRequest_bytes (slr_raw r) (slr_Msg r), slr_Signature r]"

definition sample_KeyType_Name :: "int \<Rightarrow> string option" where
  "sample_KeyType_Name n =
     (if n = 1 then Some ''SIGNING'' else if n = 2 then Some ''CONTENT''
      else if n = 3 then Some ''KEY_CONTROL'' else if n = 4 then Some ''OPERATOR_SESSION''
      else None)"

definition sample_fit :: "nat \<Rightarrow> bytes \<Rightarrow> bytes" where
  "sample_fit n b = take n (b @ replicate n (CHR 0x00))"

text \<open>A key is accepted when it has at least sixteen bytes.\<close>

definition sample_aes_key :: "bytes \<Rightarrow> bool" where
  "sample_aes_key k = (drop 15 k \<noteq> [])"

definition sample_CMAC :: "bytes \<Rightarrow> bytes \<Rightarrow> bytes option" where
  "sample_CMAC k m = (if sample_aes_key k then Some (sample_fit 16 m) else None)"

definition sample_HMAC_SHA256 :: "bytes \<Rightarrow> bytes \<Rightarrow> bytes" where
  "sample_HMAC_SHA256 k m = sample_fit 16 k @ sample_fit 16 m"

definition sample_AES_CBC :: "bytes \<Rightarrow> bytes \<Rightarrow> bytes \<Rightarrow> bytes option" where
  "sample_AES_CBC k iv d = (if sample_aes_key k then Some (rev d) else None)"

definition sample_pad :: "bytes \<Rightarrow> nat \<Rightarrow> bytes" where
  "sample_pad d n = d @ replicate (n - length d mod n) (char_of (n - length d mod n))"

definition sample_unpad :: "bytes \<Rightarrow> nat \<Rightarrow> bytes option" where
  "sample_unpad d n =
     (case rev d of
        [] \<Rightarrow> None
      | c # r \<Rightarrow>
          (let k = of_char c in
           if k < 1 then None
           else if n < k then None
           else if drop (k - 1) (c # r) = [] then None
           else if list_all (\<lambda>x. x = c) (take k (c # r)) then Some (rev (drop k (c # r)))
           else None))"

definition sample_RSA_importKey :: "bytes \<Rightarrow> RsaKey option" where
  "sample_RSA_importKey b = (if b = [] then None else Some (RsaKey b))"

definition sample_export_key_DER :: "RsaKey \<Rightarrow> bytes" where
  "sample_export_key_DER k = (case k of RsaKey b \<Rightarrow> b)"

definition sample_OAEP_decrypt :: "RsaKey \<Rightarrow> bytes \<Rightarrow> bytes option" where
  "sample_OAEP_decrypt k c = (if sample_aes_key c then Some (take 16 c) else None)"

definition sample_lib :: lib where
  "sample_lib =
     \<lparr>b64decode = sample_b64decode,
      utf8_decode = sample_utf8_decode,
      SignedLicense_ParseFromString = sample_SignedLicense_parse,
      SignedMessage_ParseFromString = sample_SignedMessage_parse,
      SignedDeviceCertificate_ParseFromString = sample_SignedDeviceCertificate_parse,
      ClientIdentification_ParseFromString = sample_ClientIdentification_parse,
      FileHashes_ParseFromString = sample_FileHashes_parse,
      ClientIdentification_SerializeToString = sample_ClientIdentification_bytes,
      FileHashes_SerializeToString = sample_FileHashes_bytes,
      License_SerializeToString = sample_License_bytes,
      LicenseRequest_SerializeToString = sample_LicenseRequest_bytes,
      SignedLicenseRequest_SerializeToString = sample_SignedLicenseRequest_bytes,
      KeyType_Name = sample_KeyType_Name,
      CMAC = sample_CMAC,
      HMAC_SHA256 = sample_HMAC_SHA256,
      SHA1 = sample_fit 20,
      AES_CBC_encrypt = sample_AES_CBC,
      AES_CBC_decrypt = sample_AES_CBC,
      pad = sample_pad,
      unpad = sample_unpad,
      RSA_importKey = sample_RSA_importKey,
      export_key_DER = sample_export_key_DER,
      OAEP_encrypt = (\<lambda>k seed m. Some (m @ seed)),
      OAEP_decrypt = sample_OAEP_decrypt,
      PSS_sign = (\<lambda>k salt h. Some (h @ salt)),
      EMSA_PSS_ENCODE = (\<lambda>h salt. Some (h @ salt)),
      cdmapi_supported = False,
      cdmapi_encrypt = (\<lambda>em. Some em),
      cdmapi_decrypt = (\<lambda>c. Some (take 16 c))\<rparr>"

section \<open>Sample inputs\<close>

text \<open>
  A client identification whose bytes are the one field \<open>Type = 1\<close> (key byte 8, value
  1). A Chrome-class device with a private key, a fresh raw session, the session after a
  challenge was issued, and a license with a content key (with an id) and an operator
  session key (without an id, allowed to encrypt but not to decrypt).
\<close>

definition sample_client_id_bytes :: bytes where
  "sample_client_id_bytes = [CHR 0x08, CHR 0x01]"

definition sample_client_id :: ClientIdentification where
  "sample_client_id =
     \<lparr>cid_fields = sample_client_id_bytes, cid_FileHashes = None, cid_SystemId = 0\<rparr>"

definition sample_device :: LocalDevice where
  "sample_device =
     \<lparr>d_type = TypeEnum CHROME, security_level = 3,
      flags = Some [(''send_key_control_nonce'', False)],
      private_key = Some (RsaKey ''KEY''),
      client_id = Some sample_client_id,
      vmp = Some (FileHashes []), system_id = Some 0\<rparr>"

definition sample_android :: LocalDevice where
  "sample_android =
     sample_device\<lparr>d_type := TypeEnum ANDROID, flags := Some [(''send_key_control_nonce'', True)]\<rparr>"

definition sample_session :: Session where
  "sample_session =
     \<lparr>session_id = ''S1'', cenc_header = RawPssh ''PSSH'', raw = True, offline = False,
      privacy_mode = False, signed_device_certificate = None, license_request = None,
      signed_license = None, session_key = None, derived_keys = Map.empty, keys = []\<rparr>"

definition sample_env :: environ where
  "sample_env =
     \<lparr>time_now = 100, rand_nonce = 41, rand_cid_aes_key = ''kkkkkkkkkkkkkkkk'',
      rand_cid_iv = ''iiiiiiiiiiiiiiii'', rand_oaep_seed = ''seed'',
      rand_pss_salt = ''salt''\<rparr>"

definition sample_request :: SignedLicenseRequest where
  "sample_request =
     \<lparr>slr_raw = True, slr_Type = LICENSE_REQUEST,
      slr_Msg = \<lparr>lr_Pssh = RawPssh ''PSSH'', lr_LicenseType = DEFAULT, lr_RequestId = ''S1'',
                 lr_Type = NEW, lr_RequestTime = 100, lr_ProtocolVersion = VERSION_2_1,
                 lr_KeyControlNonce = None, lr_EncryptedClientId = None,
                 lr_ClientId = Some sample_client_id\<rparr>,
      slr_Signature = ''SIG''\<rparr>"

definition sample_pending :: Session where
  "sample_pending = sample_session\<lparr>license_request := Some sample_request\<rparr>"

definition sample_padding_16 :: bytes where
  "sample_padding_16 =
     [CHR 0x10, CHR 0x10, CHR 0x10, CHR 0x10, CHR 0x10, CHR 0x10, CHR 0x10, CHR 0x10,
      CHR 0x10, CHR 0x10, CHR 0x10, CHR 0x10, CHR 0x10, CHR 0x10, CHR 0x10, CHR 0x10]"

definition sample_content_key :: KeyContainer where
  "sample_content_key =
     \<lparr>kc_Id = ''KID1'', kc_Iv = ''vvvvvvvvvvvvvvvv'',
      kc_Key = rev (''0123456789abcdef'' @ sample_padding_16), kc_Type = 2,
      kc_OperatorSessionKeyPermissions = []\<rparr>"

definition sample_operator_key :: KeyContainer where
  "sample_operator_key =
     \<lparr>kc_Id = [], kc_Iv = ''wwwwwwwwwwwwwwww'',
      kc_Key = rev (''operator-key'' @ [CHR 0x04, CHR 0x04, CHR 0x04, CHR 0x04]), kc_Type = 4,
      kc_OperatorSessionKeyPermissions = [(''AllowEncrypt'', True), (''AllowDecrypt'', False)]\<rparr>"

definition sample_license :: License where
  "sample_license = \<lparr>lic_Key = [sample_content_key, sample_operator_key], lic_fields = ''L''\<rparr>"

definition sample_wrapped_key :: bytes where
  "sample_wrapped_key = ''sixteen byte key''"

text \<open>
  The signature that a license server computes for \<open>sample_license\<close> in answer to
  \<open>sample_request\<close>: the HMAC under the \<open>auth_1\<close> key derived from the session key.
\<close>

definition sample_signature :: bytes where
  "sample_signature =
     sample_HMAC_SHA256
       (sample_fit 16 (CHR 0x01 # ''AUTHENTICATION'') @ sample_fit 16 (CHR 0x02 # ''AUTHENTICATION''))
       (sample_License_bytes sample_license)"

definition sample_signed_license :: SignedLicense where
  "sample_signed_license =
     \<lparr>sl_Msg = sample_license, sl_Signature = sample_signature,
      sl_SessionKey = sample_wrapped_key\<rparr>"

definition sample_response :: bytes where
  "sample_response = sample_SignedLicense_bytes sample_signed_license"

definition sample_tampered :: bytes where
  "sample_tampered =
     sample_SignedLicense_bytes
       (sample_signed_license\<lparr>sl_Signature := ''forged-signature-of-32-bytes----''\<rparr>)"


text \<open>The three keys derived for \<open>sample_request\<close> under the sample session key.\<close>

definition sample_enc :: bytes where
  "sample_enc = CHR 0x01 # ''ENCRYPTION'' @ [CHR 0x00, CHR 0x08, CHR 0x01] @ ''|P''"

definition sample_auth_1 :: bytes where
  "sample_auth_1 =
     CHR 0x01 # ''AUTHENTICATION'' @ [CHR 0x00] @ CHR 0x02 # ''AUTHENTICATION'' @ [CHR 0x00]"

definition sample_auth_2 :: bytes where
  "sample_auth_2 =
     CHR 0x03 # ''AUTHENTICATION'' @ [CHR 0x00] @ CHR 0x04 # ''AUTHENTICATION'' @ [CHR 0x00]"

definition sample_forged :: SignedLicense where
  "sample_forged = sample_signed_license\<lparr>sl_Signature := ''forged-signature-of-32-bytes----''\<rparr>"

text \<open>A service certificate, and its base64 text.\<close>

definition sample_certificate :: bytes where
  "sample_certificate = ''svc|SN|PUB''"

definition sample_certificate_b64 :: string where
  "sample_certificate_b64 = ''c3ZjfFNOfFBVQg==''"

text \<open>
  A device without client identification and without private key, a device without
  private key only, and a raw session in privacy mode whose init data are the bytes of
  the serialized client identification.
\<close>

definition sample_blank_device :: LocalDevice where
  "sample_blank_device = sample_device\<lparr>private_key := None, client_id := None\<rparr>"

definition sample_keyless_device :: LocalDevice where
  "sample_keyless_device = sample_device\<lparr>private_key := None\<rparr>"

definition sample_device_certificate :: SignedDeviceCertificate where
  "sample_device_certificate = \<lparr>dc_ServiceId = ''svc'', dc_SerialNumber = ''SN'', dc_PublicKey = ''PUB''\<rparr>"

definition sample_private :: Session where
  "sample_private =
     sample_session\<lparr>cenc_header := RawPssh sample_client_id_bytes, privacy_mode := True,
                     signed_device_certificate := Some sample_device_certificate\<rparr>"


text \<open>The blob of \<open>sample_device\<close>, before the VMP fields.\<close>

definition sample_blob :: bytes where
  "sample_blob =
     ''WVD'' @ [CHR 0x01, CHR 0x01, CHR 0x03, CHR 0x00, CHR 0x00, CHR 0x03] @ ''KEY''
     @ [CHR 0x00, CHR 0x02, CHR 0x08, CHR 0x01]"

text \<open>
  A response that passes the integrity check and whose second key container has a
  payload that does not unpad, and a response whose wrapped session key does not unwrap.
\<close>

definition sample_broken_key :: KeyContainer where
  "sample_broken_key =
     \<lparr>kc_Id = ''KID2'', kc_Iv = ''wwwwwwwwwwwwwwww'', kc_Key = [CHR 0x00], kc_Type = 2,
      kc_OperatorSessionKeyPermissions = []\<rparr>"

definition sample_partial_msg :: License where
  "sample_partial_msg = \<lparr>lic_Key = [sample_content_key, sample_broken_key], lic_fields = ''L''\<rparr>"

definition sample_partial_license :: SignedLicense where
  "sample_partial_license =
     \<lparr>sl_Msg = sample_partial_msg,
      sl_Signature = sample_HMAC_SHA256 sample_auth_1 (sample_License_bytes sample_partial_msg),
      sl_SessionKey = sample_wrapped_key\<rparr>"

definition sample_partial :: bytes where
  "sample_partial = sample_SignedLicense_bytes sample_partial_license"

definition sample_unwrappable :: bytes where
  "sample_unwrappable =
     sample_SignedLicense_bytes (sample_signed_license\<lparr>sl_SessionKey := ''short''\<rparr>)"

section \<open>Properties of \<open>parse_license\<close>\<close>








lemma char_of_nat_1: "char_of (Suc 0) = CHR 0x01"
proof -
  have "char_of (1::nat) = CHR 0x01" by code_simp
  then show ?thesis by simp
qed

lemma get_auth_keys_1: "get_auth_keys L [1] k b = CMAC L k (CHR 0x01 # b)"
  by (simp add: char_of_nat_1)

lemma char_of_nat_2: "char_of (2::nat) = CHR 0x02"
  by code_simp
lemma char_of_nat_3: "char_of (3::nat) = CHR 0x03"
  by code_simp
lemma char_of_nat_4: "char_of (4::nat) = CHR 0x04"
  by code_simp

lemma get_auth_keys_12:
  "get_auth_keys L [1, 2] k b =
     (case CMAC L k (CHR 0x01 # b) of None \<Rightarrow> None
      | Some a \<Rightarrow> (case CMAC L k (CHR 0x02 # b) of None \<Rightarrow> None | Some c \<Rightarrow> Some (a @ c)))"
  by (simp add: char_of_nat_1 char_of_nat_2 split: option.splits)

lemma get_auth_keys_34:
  "get_auth_keys L [3, 4] k b =
     (case CMAC L k (CHR 0x03 # b) of None \<Rightarrow> None
      | Some a \<Rightarrow> (case CMAC L k (CHR 0x04 # b) of None \<Rightarrow> None | Some c \<Rightarrow> Some (a @ c)))"
  by (simp add: char_of_nat_3 char_of_nat_4 split: option.splits)



text \<open>The contexts of the specification are the byte strings that the code builds.\<close>

lemma spec_context_encryption: "spec_context ''ENCRYPTION'' msg 128 = enc_key_base msg"
  by (simp add: spec_context_def spec_be32_def enc_key_base_def char_of_def bit_0 bit_Suc_0_iff)

lemma spec_context_authentication: "spec_context ''AUTHENTICATION'' msg 512 = auth_key_base msg"
  by (simp add: spec_context_def spec_be32_def auth_key_base_def char_of_def bit_0 bit_Suc_0_iff)

lemma spec_derived_keys_eq:
  "spec_derived_keys L sk msg = Some (enc, auth_1, auth_2) \<longleftrightarrow>
     get_auth_keys L [1] sk (enc_key_base msg) = Some enc \<and>
     get_auth_keys L [1, 2] sk (auth_key_base msg) = Some auth_1 \<and>
     get_auth_keys L [3, 4] sk (auth_key_base msg) = Some auth_2"
  unfolding spec_derived_keys_def spec_context_encryption spec_context_authentication
    get_auth_keys_1 get_auth_keys_12 get_auth_keys_34
  by (auto split: option.splits Option.bind_splits)

lemma parse_license_unfold:
  assumes "license_request session = Some request"
    and "assume_base64 L license_res = Some res"
    and "SignedLicense_ParseFromString L res = Some signed"
    and "unwrap_session_key L self (sl_SessionKey signed) = Some sk"
  shows "parse_license L self session license_res =
     derive_and_verify L (session\<lparr>signed_license := Some signed, session_key := Some sk\<rparr>)
       sk signed (request_msg L request)"
  unfolding parse_license_def request_msg_def using assms by (simp add: Let_def)





text \<open>
  Claim C6. On a session for which no license challenge was ever issued
  (\<open>license_request\<close> is unset), \<open>parse_license\<close> fails with \<open>NoPendingRequest\<close>,
  whatever the response is, and leaves the session as it was.
\<close>

theorem parse_license_no_pending_request:
  "license_request session = None \<Longrightarrow>
     parse_license L self session license_res = (Inl NoPendingRequest, session)"
  by (simp add: parse_license_def)

theorem parse_license_no_pending_request_witness:
  "license_request sample_session = None \<and>
   parse_license sample_lib sample_device sample_session (Bytes sample_response)
     = (Inl NoPendingRequest, sample_session)"
proof -
  have h: "license_request sample_session = None" by (simp add: sample_session_def)
  show ?thesis using h parse_license_no_pending_request[OF h] by simp
qed

text \<open>
  Claim C1. When a request is pending, the response decodes, the session key unwraps and
  the three keys derive, and the signature carried by the response is not the
  HMAC-SHA256 under the derived \<open>auth_1\<close> key of the response's inner message, then
  \<open>parse_license\<close> fails with \<open>SignatureMismatch\<close> and \<open>session.keys\<close> is exactly what
  it was before the call.
\<close>

theorem parse_license_signature_mismatch:
  assumes "license_request session = Some request"
    and "assume_base64 L license_res = Some res"
    and "SignedLicense_ParseFromString L res = Some signed"
    and "unwrap_session_key L self (sl_SessionKey signed) = Some sk"
    and "spec_derived_keys L sk (request_msg L request) = Some (enc, auth_1, auth_2)"
    and "sl_Signature signed \<noteq> HMAC_SHA256 L auth_1 (License_SerializeToString L (sl_Msg signed))"
  shows "fst (parse_license L self session license_res) = Inl SignatureMismatch
         \<and> keys (snd (parse_license L self session license_res)) = keys session"
proof -
  from assms(5) have k: "get_auth_keys L [1] sk (enc_key_base (request_msg L request)) = Some enc"
    "get_auth_keys L [1, 2] sk (auth_key_base (request_msg L request)) = Some auth_1"
    "get_auth_keys L [3, 4] sk (auth_key_base (request_msg L request)) = Some auth_2"
    by (simp_all add: spec_derived_keys_eq del: get_auth_keys.simps)
  show ?thesis
    unfolding parse_license_unfold[OF assms(1-4)] derive_and_verify_def
    using k assms(6) by (simp add: Let_def del: get_auth_keys.simps)
qed

lemma sample_parse_tampered:
  "sample_SignedLicense_parse sample_tampered =
     Some (sample_signed_license\<lparr>sl_Signature := ''forged-signature-of-32-bytes----''\<rparr>)"
  by code_simp

theorem parse_license_signature_mismatch_witness:
  "fst (parse_license sample_lib sample_device sample_pending (Bytes sample_tampered))
     = Inl SignatureMismatch
   \<and> keys (snd (parse_license sample_lib sample_device sample_pending (Bytes sample_tampered)))
     = keys sample_pending"
proof -
  let ?signed = "sample_signed_license\<lparr>sl_Signature := ''forged-signature-of-32-bytes----''\<rparr>"
  have 1: "license_request sample_pending = Some sample_request"
    by (simp add: sample_pending_def)
  have 2: "assume_base64 sample_lib (Bytes sample_tampered) = Some sample_tampered"
    by (simp add: assume_base64_def)
  have 3: "SignedLicense_ParseFromString sample_lib sample_tampered = Some ?signed"
    using sample_parse_tampered by (simp add: sample_lib_def)
  have 4: "unwrap_session_key sample_lib sample_device (sl_SessionKey ?signed)
             = Some ''sixteen byte key''"
    by code_simp
  have 5: "spec_derived_keys sample_lib ''sixteen byte key'' (request_msg sample_lib sample_request)
             = Some (sample_enc, sample_auth_1, sample_auth_2)"
    unfolding spec_derived_keys_eq request_msg_def by code_simp
  have 6: "sl_Signature ?signed
             \<noteq> HMAC_SHA256 sample_lib sample_auth_1 (License_SerializeToString sample_lib (sl_Msg ?signed))"
    by code_simp
  show ?thesis by (rule parse_license_signature_mismatch[OF 1 2 3 4 5 6])
qed






section \<open>The derived keys\<close>





section \<open>The extracted keys\<close>



section \<open>Base64 arguments\<close>

text \<open>
  Claim C10. \<open>set_service_certificate\<close> and \<open>parse_license\<close> take their argument as bytes
  or as a base64 string; for a string that decodes to \<open>b\<close>, the result and the session
  are those of the call with the bytes \<open>b\<close>.
\<close>

theorem base64_string_argument:
  assumes "b64decode L t = Some b"
  shows "set_service_certificate L self session (Str t)
           = set_service_certificate L self session (Bytes b)
         \<and> parse_license L self session (Str t) = parse_license L self session (Bytes b)"
proof -
  from assms have "assume_base64 L (Str t) = assume_base64 L (Bytes b)"
    by (simp add: assume_base64_def)
  then show ?thesis
    by (simp only: set_service_certificate_def parse_license_def)
qed

lemma sample_b64: "b64decode sample_lib sample_certificate_b64 = Some sample_certificate"
  by (simp add: sample_lib_def sample_certificate_b64_def sample_certificate_def
      sample_b64decode_def sample_b64_value_def char_of_def Let_def bit_0 bit_Suc_0_iff)

theorem base64_string_argument_witness:
  "b64decode sample_lib sample_certificate_b64 = Some sample_certificate
   \<and> set_service_certificate sample_lib sample_device sample_session (Str sample_certificate_b64)
       = set_service_certificate sample_lib sample_device sample_session (Bytes sample_certificate)
   \<and> parse_license sample_lib sample_device sample_pending (Str sample_certificate_b64)
       = parse_license sample_lib sample_device sample_pending (Bytes sample_certificate)
   \<and> set_service_certificate sample_lib sample_device sample_session (Bytes sample_certificate)
       = Inr (True, sample_session\<lparr>signed_device_certificate :=
                Some \<lparr>dc_ServiceId = ''svc'', dc_SerialNumber = ''SN'', dc_PublicKey = ''PUB''\<rparr>,
              privacy_mode := True\<rparr>)"
proof -
  have c: "SignedDeviceCertificate_ParseFromString sample_lib sample_certificate
         = Some \<lparr>dc_ServiceId = ''svc'', dc_SerialNumber = ''SN'', dc_PublicKey = ''PUB''\<rparr>"
    by code_simp
  have m: "SignedMessage_ParseFromString sample_lib sample_certificate = Some \<lparr>sm_Msg = sample_certificate\<rparr>"
    by code_simp
  have r: "set_service_certificate sample_lib sample_device sample_session (Bytes sample_certificate)
       = Inr (True, sample_session\<lparr>signed_device_certificate :=
                Some \<lparr>dc_ServiceId = ''svc'', dc_SerialNumber = ''SN'', dc_PublicKey = ''PUB''\<rparr>,
              privacy_mode := True\<rparr>)"
    unfolding set_service_certificate_def using c m by (simp add: assume_base64_def)
  from base64_string_argument[OF sample_b64] sample_b64 r show ?thesis by simp
qed

section \<open>Properties of \<open>get_license_challenge\<close>\<close>

lemma get_license_challenge_success:
  assumes "get_license_challenge L env self session = Inr (challenge, s')"
  obtains cid msg sig where
    "client_id self = Some cid"
    "pssh_matches (raw session) (cenc_header session)"
    "(if privacy_mode session
      then (case encrypt_client_id L env cid session of
              Inl e \<Rightarrow> Inl e
            | Inr enc_client_id \<Rightarrow>
                Inr ((request_base env self session)\<lparr>lr_EncryptedClientId := Some enc_client_id\<rparr>))
      else Inr ((request_base env self session)\<lparr>lr_ClientId := Some cid\<rparr>)) = Inr msg"
    "sign_request L env self (LicenseRequest_SerializeToString L (raw session) msg) = Some sig"
    "s' = session\<lparr>license_request :=
            Some \<lparr>slr_raw = raw session, slr_Type = LICENSE_REQUEST, slr_Msg = msg,
                  slr_Signature = sig\<rparr>\<rparr>"
    "challenge = SignedLicenseRequest_SerializeToString L
            \<lparr>slr_raw = raw session, slr_Type = LICENSE_REQUEST, slr_Msg = msg,
                  slr_Signature = sig\<rparr>"
  using assms unfolding get_license_challenge_def
  by (auto simp: Let_def split: option.splits if_splits sum.splits)

text \<open>
  Claim C8. The license request that \<open>get_license_challenge\<close> builds carries a key
  control nonce if and only if the device flag \<open>send_key_control_nonce\<close> is set, and a
  nonce that is there lies in \<open>[1, 2^31)\<close>; with the flag false the field is absent.
\<close>

theorem key_control_nonce_iff_flag:
  assumes "get_license_challenge L env self session = Inr (challenge, s')"
  shows "\<exists>request. license_request s' = Some request
           \<and> challenge = SignedLicenseRequest_SerializeToString L request
           \<and> ((\<exists>n. lr_KeyControlNonce (slr_Msg request) = Some n)
                \<longleftrightarrow> (\<exists>fl. flags self = Some fl \<and> map_of fl ''send_key_control_nonce'' = Some True))
           \<and> (\<forall>n. lr_KeyControlNonce (slr_Msg request) = Some n \<longrightarrow> 1 \<le> n \<and> n < 2 ^ 31)"
proof -
  from assms obtain cid msg sig where
    "client_id self = Some cid"
    and "pssh_matches (raw session) (cenc_header session)"
    and msg: "(if privacy_mode session
      then (case encrypt_client_id L env cid session of
              Inl e \<Rightarrow> Inl e
            | Inr enc_client_id \<Rightarrow>
                Inr ((request_base env self session)\<lparr>lr_EncryptedClientId := Some enc_client_id\<rparr>))
      else Inr ((request_base env self session)\<lparr>lr_ClientId := Some cid\<rparr>)) = Inr msg"
    and "sign_request L env self (LicenseRequest_SerializeToString L (raw session) msg) = Some sig"
    and s': "s' = session\<lparr>license_request :=
            Some \<lparr>slr_raw = raw session, slr_Type = LICENSE_REQUEST, slr_Msg = msg,
                  slr_Signature = sig\<rparr>\<rparr>"
    and c: "challenge = SignedLicenseRequest_SerializeToString L
            \<lparr>slr_raw = raw session, slr_Type = LICENSE_REQUEST, slr_Msg = msg,
                  slr_Signature = sig\<rparr>"
    by (rule get_license_challenge_success)
  from msg have nonce: "lr_KeyControlNonce msg = lr_KeyControlNonce (request_base env self session)"
    by (auto split: if_splits sum.splits)
  have flag: "send_key_control_nonce self
      \<longleftrightarrow> (\<exists>fl. flags self = Some fl \<and> map_of fl ''send_key_control_nonce'' = Some True)"
    unfolding send_key_control_nonce_def by (cases "flags self") auto
  have range: "1 \<le> randrange_nonce r \<and> randrange_nonce r < 2 ^ 31" for r
  proof -
    have "r mod (2 ^ 31 - 1) < 2 ^ 31 - 1" by simp
    then show ?thesis unfolding randrange_nonce_def by simp
  qed
  have "(\<exists>n. lr_KeyControlNonce msg = Some n)
       \<longleftrightarrow> (\<exists>fl. flags self = Some fl \<and> map_of fl ''send_key_control_nonce'' = Some True)"
    unfolding nonce request_base_def using flag by simp
  moreover have "\<forall>n. lr_KeyControlNonce msg = Some n \<longrightarrow> 1 \<le> n \<and> n < 2 ^ 31"
    unfolding nonce request_base_def using range by (simp split: if_splits)
  ultimately show ?thesis using s' c by simp
qed



lemmas sample_challenge_defs =
  get_license_challenge_def sample_lib_def sample_device_def sample_android_def sample_session_def
  sample_env_def sample_client_id_def pssh_matches_def request_base_def send_key_control_nonce_def
  randrange_nonce_def sign_request_def encrypt_client_id_def sample_private_def
  sample_device_certificate_def sample_utf8_decode_def sample_AES_CBC_def sample_aes_key_def
  sample_RSA_importKey_def sample_blank_device_def sample_keyless_device_def Let_def

theorem key_control_nonce_iff_flag_witness:
  "(\<exists>challenge s' request.
       get_license_challenge sample_lib sample_env sample_android sample_session = Inr (challenge, s')
       \<and> license_request s' = Some request
       \<and> flags sample_android = Some [(''send_key_control_nonce'', True)]
       \<and> lr_KeyControlNonce (slr_Msg request) = Some 42)
   \<and> (\<exists>challenge s' request.
       get_license_challenge sample_lib sample_env sample_device sample_session = Inr (challenge, s')
       \<and> license_request s' = Some request
       \<and> flags sample_device = Some [(''send_key_control_nonce'', False)]
       \<and> lr_KeyControlNonce (slr_Msg request) = None)"
proof -
  obtain c1 s1 where r1: "get_license_challenge sample_lib sample_env sample_android sample_session = Inr (c1, s1)"
    by (simp add: sample_challenge_defs)
  obtain c2 s2 where r2: "get_license_challenge sample_lib sample_env sample_device sample_session = Inr (c2, s2)"
    by (simp add: sample_challenge_defs)
  have f1: "flags sample_android = Some [(''send_key_control_nonce'', True)]"
    by (simp add: sample_android_def sample_device_def)
  have f2: "flags sample_device = Some [(''send_key_control_nonce'', False)]"
    by (simp add: sample_device_def)
  from key_control_nonce_iff_flag[OF r1] obtain q1 where
    q1: "license_request s1 = Some q1" "\<exists>n. lr_KeyControlNonce (slr_Msg q1) = Some n"
    using f1 by auto
  from r1 q1(1) have "lr_KeyControlNonce (slr_Msg q1) = Some 42"
    by (auto simp: sample_challenge_defs)
  with r1 q1 f1 have w1: "\<exists>challenge s' request.
       get_license_challenge sample_lib sample_env sample_android sample_session = Inr (challenge, s')
       \<and> license_request s' = Some request
       \<and> flags sample_android = Some [(''send_key_control_nonce'', True)]
       \<and> lr_KeyControlNonce (slr_Msg request) = Some 42" by blast
  from key_control_nonce_iff_flag[OF r2] obtain q2 where
    q2: "license_request s2 = Some q2" "\<not> (\<exists>n. lr_KeyControlNonce (slr_Msg q2) = Some n)"
    using f2 by auto
  then have "lr_KeyControlNonce (slr_Msg q2) = None" by simp
  with r2 q2 f2 have w2: "\<exists>challenge s' request.
       get_license_challenge sample_lib sample_env sample_device sample_session = Inr (challenge, s')
       \<and> license_request s' = Some request
       \<and> flags sample_device = Some [(''send_key_control_nonce'', False)]
       \<and> lr_KeyControlNonce (slr_Msg request) = None" by blast
  from w1 w2 show ?thesis by (rule conjI)
qed



text \<open>
  The sample serialiser writes the init data of a raw session as they are into the
  challenge, as the protobuf wire format writes a bytes field.
\<close>

lemma sample_join_3: "sample_join c (x # y # z # r) = x @ c # y @ c # sample_join c (z # r)"
  by simp

lemma sample_challenge_embeds_pssh:
  "sublist (sample_pssh_bytes (lr_Pssh (slr_Msg r))) (sample_SignedLicenseRequest_bytes r)"
proof -
  obtain a rest where
    "sample_LicenseRequest_bytes (slr_raw r) (slr_Msg r)
       = a @ CHR ''|'' # sample_pssh_bytes (lr_Pssh (slr_Msg r)) @ CHR ''|'' # rest"
    unfolding sample_LicenseRequest_bytes_def sample_join_3 by blast
  then have "sample_SignedLicenseRequest_bytes r
      = (a @ [CHR ''|'']) @ sample_pssh_bytes (lr_Pssh (slr_Msg r)) @ (CHR ''|'' # rest @ CHR ''|'' # slr_Signature r)"
    unfolding sample_SignedLicenseRequest_bytes_def by simp
  then show ?thesis unfolding sublist_def by blast
qed

lemma sample_challenge_contains_raw_pssh:
  assumes "get_license_challenge sample_lib env self session = Inr (challenge, s')"
  shows "sublist (sample_pssh_bytes (cenc_header session)) challenge"
proof -
  from assms obtain cid msg sig where
    "client_id self = Some cid"
    and "pssh_matches (raw session) (cenc_header session)"
    and msg: "(if privacy_mode session
      then (case encrypt_client_id sample_lib env cid session of
              Inl e \<Rightarrow> Inl e
            | Inr enc_client_id \<Rightarrow>
                Inr ((request_base env self session)\<lparr>lr_EncryptedClientId := Some enc_client_id\<rparr>))
      else Inr ((request_base env self session)\<lparr>lr_ClientId := Some cid\<rparr>)) = Inr msg"
    and "sign_request sample_lib env self (LicenseRequest_SerializeToString sample_lib (raw session) msg) = Some sig"
    and s': "s' = session\<lparr>license_request :=
            Some \<lparr>slr_raw = raw session, slr_Type = LICENSE_REQUEST, slr_Msg = msg,
                  slr_Signature = sig\<rparr>\<rparr>"
    and c: "challenge = SignedLicenseRequest_SerializeToString sample_lib
            \<lparr>slr_raw = raw session, slr_Type = LICENSE_REQUEST, slr_Msg = msg,
                  slr_Signature = sig\<rparr>"
    by (rule get_license_challenge_success)
  from msg have "lr_Pssh msg = cenc_header session"
    by (auto simp: request_base_def split: if_splits sum.splits)
  with sample_challenge_embeds_pssh[of "\<lparr>slr_raw = raw session, slr_Type = LICENSE_REQUEST,
      slr_Msg = msg, slr_Signature = sig\<rparr>"] c
  show ?thesis by (simp add: sample_lib_def)
qed

text \<open>
  Claim C4, as stated, asks that in privacy mode the challenge never contains the bytes of
  the serialized client identification. The init data of a raw session are bytes that
  the caller supplies and that the request carries as they are: when they are the bytes
  of the serialized client identification, the challenge of a session in privacy mode
  contains them.
\<close>

theorem privacy_challenge_contains_client_id:
  "privacy_mode sample_private
   \<and> client_id sample_device = Some sample_client_id
   \<and> \<not> isl (get_license_challenge sample_lib sample_env sample_device sample_private)
   \<and> sublist (ClientIdentification_SerializeToString sample_lib sample_client_id)
        (fst (projr (get_license_challenge sample_lib sample_env sample_device sample_private)))"
proof -
  obtain c s where r: "get_license_challenge sample_lib sample_env sample_device sample_private = Inr (c, s)"
    by (simp add: sample_challenge_defs)
  have "sample_pssh_bytes (cenc_header sample_private)
      = ClientIdentification_SerializeToString sample_lib sample_client_id"
    by (simp add: sample_private_def sample_pssh_bytes_def sample_lib_def
        sample_ClientIdentification_bytes_def sample_client_id_def)
  with sample_challenge_contains_raw_pssh[OF r] r show ?thesis
    by (simp add: sample_private_def sample_device_def)
qed

text \<open>
  Claim C4, amended. In privacy mode the request message has no \<open>ClientId\<close> field and
  has an \<open>EncryptedClientId\<close> whose service id and serial number are those of the
  certificate and whose encrypted identity is the AES-CBC encryption of the padded
  serialized client identification under the fresh key and IV. Without privacy mode
  it has the \<open>ClientId\<close> field, holding the device's client identification, and no
  \<open>EncryptedClientId\<close>. In every challenge exactly one of the two fields is set.
\<close>

theorem challenge_identity_exclusive:
  assumes "get_license_challenge L env self session = Inr (challenge, s')"
  shows "\<exists>request cid.
           license_request s' = Some request
           \<and> challenge = SignedLicenseRequest_SerializeToString L request
           \<and> client_id self = Some cid
           \<and> (if privacy_mode session
               then lr_ClientId (slr_Msg request) = None
                    \<and> (\<exists>cert e.
                          signed_device_certificate session = Some cert
                          \<and> lr_EncryptedClientId (slr_Msg request) = Some e
                          \<and> utf8_decode L (dc_ServiceId cert) = Some (eci_ServiceId e)
                          \<and> eci_ServiceCertificateSerialNumber e = dc_SerialNumber cert
                          \<and> AES_CBC_encrypt L (rand_cid_aes_key env) (rand_cid_iv env)
                                (pad L (ClientIdentification_SerializeToString L cid) 16)
                              = Some (eci_EncryptedClientId e))
               else lr_ClientId (slr_Msg request) = Some cid
                    \<and> lr_EncryptedClientId (slr_Msg request) = None)"
proof -
  from assms obtain cid msg sig where
    cid: "client_id self = Some cid"
    and "pssh_matches (raw session) (cenc_header session)"
    and msg: "(if privacy_mode session
      then (case encrypt_client_id L env cid session of
              Inl e \<Rightarrow> Inl e
            | Inr enc_client_id \<Rightarrow>
                Inr ((request_base env self session)\<lparr>lr_EncryptedClientId := Some enc_client_id\<rparr>))
      else Inr ((request_base env self session)\<lparr>lr_ClientId := Some cid\<rparr>)) = Inr msg"
    and "sign_request L env self (LicenseRequest_SerializeToString L (raw session) msg) = Some sig"
    and s': "s' = session\<lparr>license_request :=
            Some \<lparr>slr_raw = raw session, slr_Type = LICENSE_REQUEST, slr_Msg = msg,
                  slr_Signature = sig\<rparr>\<rparr>"
    and c: "challenge = SignedLicenseRequest_SerializeToString L
            \<lparr>slr_raw = raw session, slr_Type = LICENSE_REQUEST, slr_Msg = msg,
                  slr_Signature = sig\<rparr>"
    by (rule get_license_challenge_success)
  have body: "if privacy_mode session
               then lr_ClientId msg = None
                    \<and> (\<exists>cert e.
                          signed_device_certificate session = Some cert
                          \<and> lr_EncryptedClientId msg = Some e
                          \<and> utf8_decode L (dc_ServiceId cert) = Some (eci_ServiceId e)
                          \<and> eci_ServiceCertificateSerialNumber e = dc_SerialNumber cert
                          \<and> AES_CBC_encrypt L (rand_cid_aes_key env) (rand_cid_iv env)
                                (pad L (ClientIdentification_SerializeToString L cid) 16)
                              = Some (eci_EncryptedClientId e))
               else lr_ClientId msg = Some cid \<and> lr_EncryptedClientId msg = None"
  proof (cases "privacy_mode session")
    case False
    with msg show ?thesis by (auto simp: request_base_def)
  next
    case True
    with msg obtain e where e: "encrypt_client_id L env cid session = Inr e"
      and m: "msg = (request_base env self session)\<lparr>lr_EncryptedClientId := Some e\<rparr>"
      by (auto split: sum.splits)
    from e obtain cert where "signed_device_certificate session = Some cert"
      "utf8_decode L (dc_ServiceId cert) = Some (eci_ServiceId e)"
      "eci_ServiceCertificateSerialNumber e = dc_SerialNumber cert"
      "AES_CBC_encrypt L (rand_cid_aes_key env) (rand_cid_iv env)
          (pad L (ClientIdentification_SerializeToString L cid) 16) = Some (eci_EncryptedClientId e)"
      unfolding encrypt_client_id_def by (auto split: option.splits)
    with True m show ?thesis by (simp add: request_base_def)
  qed
  let ?request = "\<lparr>slr_raw = raw session, slr_Type = LICENSE_REQUEST, slr_Msg = msg,
                  slr_Signature = sig\<rparr>"
  have "license_request s' = Some ?request" using s' by simp
  moreover have "challenge = SignedLicenseRequest_SerializeToString L ?request" using c .
  moreover have "slr_Msg ?request = msg" by simp
  ultimately show ?thesis using cid body
    by (intro exI[of _ ?request] exI[of _ cid]) (auto split: if_splits)
qed

theorem challenge_identity_exclusive_witness:
  "(\<exists>challenge s' request e.
       privacy_mode sample_private
       \<and> get_license_challenge sample_lib sample_env sample_device sample_private = Inr (challenge, s')
       \<and> license_request s' = Some request
       \<and> lr_ClientId (slr_Msg request) = None
       \<and> lr_EncryptedClientId (slr_Msg request) = Some e
       \<and> eci_ServiceId e = ''svc'' \<and> eci_ServiceCertificateSerialNumber e = ''SN'')
   \<and> (\<exists>challenge s' request.
       privacy_mode sample_session = False
       \<and> get_license_challenge sample_lib sample_env sample_device sample_session = Inr (challenge, s')
       \<and> license_request s' = Some request
       \<and> lr_ClientId (slr_Msg request) = Some sample_client_id
       \<and> lr_EncryptedClientId (slr_Msg request) = None)"
proof -
  obtain c1 s1 where r1: "get_license_challenge sample_lib sample_env sample_device sample_private = Inr (c1, s1)"
    by (simp add: sample_challenge_defs)
  obtain c2 s2 where r2: "get_license_challenge sample_lib sample_env sample_device sample_session = Inr (c2, s2)"
    by (simp add: sample_challenge_defs)
  have p1: "privacy_mode sample_private" "signed_device_certificate sample_private = Some sample_device_certificate"
    by (simp_all add: sample_private_def sample_session_def)
  have p2: "privacy_mode sample_session = False" by (simp add: sample_session_def)
  have u: "utf8_decode sample_lib (dc_ServiceId sample_device_certificate) = Some ''svc''"
    by (simp add: sample_lib_def sample_device_certificate_def sample_utf8_decode_def)
  have sn: "dc_SerialNumber sample_device_certificate = ''SN''"
    by (simp add: sample_device_certificate_def)
  have cid: "client_id sample_device = Some sample_client_id" by (simp add: sample_device_def)
  from challenge_identity_exclusive[OF r1] p1 u sn
  have "\<exists>request e. license_request s1 = Some request
       \<and> lr_ClientId (slr_Msg request) = None
       \<and> lr_EncryptedClientId (slr_Msg request) = Some e
       \<and> eci_ServiceId e = ''svc'' \<and> eci_ServiceCertificateSerialNumber e = ''SN''"
    by auto
  with r1 p1 have w1: "\<exists>challenge s' request e.
       privacy_mode sample_private
       \<and> get_license_challenge sample_lib sample_env sample_device sample_private = Inr (challenge, s')
       \<and> license_request s' = Some request
       \<and> lr_ClientId (slr_Msg request) = None
       \<and> lr_EncryptedClientId (slr_Msg request) = Some e
       \<and> eci_ServiceId e = ''svc'' \<and> eci_ServiceCertificateSerialNumber e = ''SN''" by blast
  from challenge_identity_exclusive[OF r2] p2 cid
  have "\<exists>request. license_request s2 = Some request
       \<and> lr_ClientId (slr_Msg request) = Some sample_client_id
       \<and> lr_EncryptedClientId (slr_Msg request) = None"
    by auto
  with r2 p2 have w2: "\<exists>challenge s' request.
       privacy_mode sample_session = False
       \<and> get_license_challenge sample_lib sample_env sample_device sample_session = Inr (challenge, s')
       \<and> license_request s' = Some request
       \<and> lr_ClientId (slr_Msg request) = Some sample_client_id
       \<and> lr_EncryptedClientId (slr_Msg request) = None" by blast
  from w1 w2 show ?thesis by (rule conjI)
qed

section \<open>Properties of \<open>load\<close> and \<open>dumpb\<close>\<close>

lemma of_char_less_256: "(of_char a :: nat) < 256"
proof -
  have "(of_char a :: nat) mod 256 = of_char a" by simp
  then show ?thesis by (metis mod_less_divisor zero_less_numeral)
qed

lemma stream_read_Some:
  assumes "stream_read n s = Some (d, r)"
  shows "s = d @ r \<and> length d = n"
  using assms by (auto simp: stream_read_def split: if_splits)

lemma Int8ub_roundtrip:
  assumes "Int8ub_parse s = Some (n, r)"
  shows "\<exists>a. s = a # r \<and> n = of_char a \<and> Int8ub_build (int n) = Some [a]"
proof -
  from assms obtain a where a: "s = a # r" "n = of_char a"
    by (auto simp: Int8ub_parse_def split: list.splits)
  have "char_of (int (of_char a)) = a" by simp
  moreover have "int (of_char a) < 256" using of_char_less_256[of a] by simp
  ultimately show ?thesis using a by (simp add: Int8ub_build_def)
qed

lemma Int16ub_roundtrip:
  assumes "Int16ub_parse s = Some (n, r)"
  shows "\<exists>a b. s = a # b # r \<and> Int16ub_build n = Some [a, b]"
proof -
  from assms obtain a b where ab: "s = a # b # r" "n = of_char a * 256 + of_char b"
    by (auto simp: Int16ub_parse_def split: list.splits)
  have la: "(of_char a :: nat) < 256" and lb: "(of_char b :: nat) < 256"
    by (rule of_char_less_256)+
  from lb have d: "n div 256 = of_char a" and m: "n mod 256 = of_char b"
    unfolding ab(2) by simp_all
  from la lb have "n < 65536" unfolding ab(2) by linarith
  with d m ab(1) show ?thesis by (simp add: Int16ub_build_def)
qed

lemma flags_roundtrip:
  assumes "flags_parse s = Some (fl, r)"
  shows "\<exists>a. s = a # r \<and> (a = CHR 0x00 \<or> a = CHR 0x01 \<longrightarrow> flags_build fl = [a])"
proof -
  from assms obtain a where a: "s = a # r" "fl = Some [(''send_key_control_nonce'', odd (of_char a :: nat))]"
    by (auto simp: flags_parse_def split: list.splits)
  have "odd (of_char (CHR 0x01) :: nat)" "\<not> odd (of_char (CHR 0x00) :: nat)" by simp_all
  with a show ?thesis by (auto simp: flags_build_def)
qed

lemma type_roundtrip:
  assumes "type_decode n = TStr name" and "n < 256"
  shows "\<exists>t. init_type (TStr name) = Some (TypeEnum t) \<and> Types_value t = n"
  using assms
  by (auto simp: type_decode_def init_type_def Types_lookup_def Types_value_def split: if_splits)


lemma WidevineDeviceStruct_parse_steps:
  assumes "WidevineDeviceStruct_parse b = Some c"
  obtains s1 version s2 ty s3 level s4 fl s5 pklen s6 pk s7 cidlen s8 ci s9 where
    "stream_read 3 b = Some (''WVD'', s1)"
    "Int8ub_parse s1 = Some (version, s2)"
    "Int8ub_parse s2 = Some (ty, s3)"
    "Int8ub_parse s3 = Some (level, s4)"
    "flags_parse s4 = Some (fl, s5)"
    "Int16ub_parse s5 = Some (pklen, s6)"
    "stream_read pklen s6 = Some (pk, s7)"
    "Int16ub_parse s7 = Some (cidlen, s8)"
    "stream_read cidlen s8 = Some (ci, s9)"
    "c_version c = int version" "c_type c = type_decode ty" "c_security_level c = int level"
    "c_flags c = fl" "c_private_key c = Some pk" "c_client_id c = Some ci"
  using assms unfolding WidevineDeviceStruct_parse_def
  by (auto split: Option.bind_splits if_splits prod.splits)

text \<open>
  The round trip where it holds: a version 1 blob of a known type with zero reserved flag
  bits, which stores a key and a client identification in the canonical encoding of the
  libraries (exporting the imported key and serializing the parsed identification give
  the stored bytes back) and which has no VMP, loads into a device whose \<open>dumpb\<close> is
  the blob's bytes up to the end of the client identification, followed by the length 0
  of an empty VMP.
\<close>

lemma dumpb_load_roundtrip:
  assumes parse: "WidevineDeviceStruct_parse b = Some c"
    and version: "c_version c = 1"
    and known_type: "c_type c = TStr name"
    and reserved: "b ! 6 = CHR 0x00 \<or> b ! 6 = CHR 0x01"
    and pk: "c_private_key c = Some pk" "pk \<noteq> []"
    and key: "RSA_importKey L pk = Some k" "export_key_DER L k = pk"
    and ci: "c_client_id c = Some ci"
    and cid: "ClientIdentification_ParseFromString L ci = Some cid"
      "ClientIdentification_SerializeToString L cid = ci"
    and no_vmp: "c_vmp c = None"
    and empty: "FileHashes_SerializeToString L (FileHashes []) = []"
  shows "\<exists>d. load L b = Inr d
           \<and> dumpb L d = Inr (take (11 + length pk + length ci) b @ [CHR 0x00, CHR 0x00])"
proof -
  from parse obtain s1 vn s2 ty s3 level s4 fl s5 pklen s6 pk' s7 cidlen s8 ci' s9 where
    st: "stream_read 3 b = Some (''WVD'', s1)"
    "Int8ub_parse s1 = Some (vn, s2)"
    "Int8ub_parse s2 = Some (ty, s3)"
    "Int8ub_parse s3 = Some (level, s4)"
    "flags_parse s4 = Some (fl, s5)"
    "Int16ub_parse s5 = Some (pklen, s6)"
    "stream_read pklen s6 = Some (pk', s7)"
    "Int16ub_parse s7 = Some (cidlen, s8)"
    "stream_read cidlen s8 = Some (ci', s9)"
    and c: "c_version c = int vn" "c_type c = type_decode ty" "c_security_level c = int level"
    "c_flags c = fl" "c_private_key c = Some pk'" "c_client_id c = Some ci'"
    by (rule WidevineDeviceStruct_parse_steps)
  from c pk ci have [simp]: "pk' = pk" "ci' = ci" by simp_all
  from stream_read_Some[OF st(1)] have b1: "b = ''WVD'' @ s1" by simp
  from Int8ub_roundtrip[OF st(2)] obtain v where
    v: "s1 = v # s2" "vn = of_char v" "Int8ub_build (int vn) = Some [v]" by blast
  from Int8ub_roundtrip[OF st(3)] obtain t where
    t: "s2 = t # s3" "ty = of_char t" "Int8ub_build (int ty) = Some [t]" by blast
  from Int8ub_roundtrip[OF st(4)] obtain l where
    l: "s3 = l # s4" "level = of_char l" "Int8ub_build (int level) = Some [l]" by blast
  from flags_roundtrip[OF st(5)] obtain f where
    f: "s4 = f # s5" "f = CHR 0x00 \<or> f = CHR 0x01 \<longrightarrow> flags_build fl = [f]" by blast
  from Int16ub_roundtrip[OF st(6)] obtain p1 p2 where
    p: "s5 = p1 # p2 # s6" "Int16ub_build pklen = Some [p1, p2]" by blast
  from stream_read_Some[OF st(7)] have k6: "s6 = pk @ s7" "length pk = pklen" by simp_all
  from Int16ub_roundtrip[OF st(8)] obtain c1 c2 where
    cl: "s7 = c1 # c2 # s8" "Int16ub_build cidlen = Some [c1, c2]" by blast
  from stream_read_Some[OF st(9)] have k8: "s8 = ci @ s9" "length ci = cidlen" by simp_all
  define body where "body = ''WVD'' @ [v, t, l, f, p1, p2] @ pk @ [c1, c2] @ ci"
  have b: "b = body @ s9"
    using b1 v(1) t(1) l(1) f(1) p(1) k6(1) cl(1) k8(1) by (simp add: body_def)
  have len: "length body = 11 + length pk + length ci" by (simp add: body_def)
  have "take (length body) (body @ s9) = body" by simp
  then have body: "take (11 + length pk + length ci) b = body" unfolding b len .
  from b have "b ! 6 = f" by (simp add: body_def)
  with reserved f(2) have fb: "flags_build fl = [f]" by simp
  have "ty < 256" unfolding t(2) by (rule of_char_less_256)
  with known_type c(2) obtain t' where
    t': "init_type (TStr name) = Some (TypeEnum t')" "Types_value t' = ty"
    using type_roundtrip[of ty name] by auto
  let ?d = "\<lparr>d_type = TypeEnum t', security_level = int level, flags = fl, private_key = Some k,
             client_id = Some cid, vmp = Some (FileHashes []),
             system_id = Some (cid_SystemId cid)\<rparr>"
  have ld: "load L b = Inr ?d"
    unfolding load_def parse
    using known_type c pk key ci cid no_vmp t'
    by (simp add: LocalDevice_init_def is_empty_arg_def)
  from version c(1) v(3) have vb: "Int8ub_build WidevineDeviceStructVersion = Some [v]"
    by (simp add: WidevineDeviceStructVersion_def)
  have z: "Int16ub_build 0 = Some [CHR 0x00, CHR 0x00]"
    by (simp add: Int16ub_build_def char_of_def)
  have "WidevineDeviceStruct_build
          \<lparr>c_version = WidevineDeviceStructVersion, c_type = TInt ty, c_security_level = int level,
           c_flags = fl, c_private_key_len = length pk, c_private_key = Some pk,
           c_client_id_len = length ci, c_client_id = Some ci, c_vmp_len = Some 0,
           c_vmp = Some []\<rparr>
        = Some (''WVD'' @ [v, t, l, f, p1, p2] @ pk @ [c1, c2] @ ci @ [CHR 0x00, CHR 0x00])"
    unfolding WidevineDeviceStruct_build_def
    using vb t(3) l(3) fb p(2) k6(2) cl(2) k8(2) z
    by (simp add: type_build_def Bytes_build_def vmp_len_build_def vmp_build_def)
  then have "dumpb L ?d = Inr (''WVD'' @ [v, t, l, f, p1, p2] @ pk @ [c1, c2] @ ci @ [CHR 0x00, CHR 0x00])"
    using key cid empty pk(2) t'(2)
    by (simp add: dumpb_def Let_def len_or_0_def)
  with ld body show ?thesis by (simp add: body_def)
qed

text \<open>
  The two bytes of the sample client identification decode; the six letters \<open>CLIENT\<close>
  do not (their first byte asks for a group).
\<close>

lemma sample_client_id_decodes:
  "ClientIdentification_ParseFromString sample_lib sample_client_id_bytes = Some sample_client_id"
  by (simp add: sample_lib_def sample_ClientIdentification_parse_def sample_wire_format_def
      sample_client_id_bytes_def sample_client_id_def)

lemma sample_letters_do_not_decode:
  "ClientIdentification_ParseFromString sample_lib ''CLIENT'' = None"
  by (simp add: sample_lib_def sample_ClientIdentification_parse_def sample_wire_format_def)

lemma sample_client_id_serialized:
  "ClientIdentification_SerializeToString sample_lib sample_client_id = sample_client_id_bytes"
  by (simp add: sample_lib_def sample_ClientIdentification_bytes_def sample_client_id_def)

lemma sample_blob_roundtrip:
  "load sample_lib sample_blob = Inr sample_device
   \<and> dumpb sample_lib sample_device = Inr (sample_blob @ [CHR 0x00, CHR 0x00])"
proof -
  have p: "WidevineDeviceStruct_parse sample_blob =
     Some \<lparr>c_version = 1, c_type = TStr ''CHROME'', c_security_level = 3,
           c_flags = Some [(''send_key_control_nonce'', False)], c_private_key_len = 3,
           c_private_key = Some ''KEY'', c_client_id_len = 2,
           c_client_id = Some sample_client_id_bytes,
           c_vmp_len = None, c_vmp = None\<rparr>"
    by (simp add: sample_blob_def WidevineDeviceStruct_parse_def stream_read_def
        Int8ub_parse_def Int16ub_parse_def flags_parse_def type_decode_def vmp_len_parse_def
        vmp_parse_def sample_client_id_bytes_def)
  have k: "RSA_importKey sample_lib ''KEY'' = Some (RsaKey ''KEY'')"
    "export_key_DER sample_lib (RsaKey ''KEY'') = ''KEY''"
    "FileHashes_SerializeToString sample_lib (FileHashes []) = []"
    by (simp_all add: sample_lib_def sample_RSA_importKey_def sample_export_key_DER_def
        sample_FileHashes_bytes_def)
  have l: "load sample_lib sample_blob = Inr sample_device"
    unfolding load_def p
    using sample_client_id_decodes k
    by (simp add: LocalDevice_init_def init_type_def Types_lookup_def is_empty_arg_def
        sample_device_def sample_client_id_def)
  from dumpb_load_roundtrip[of sample_blob _ "''CHROME''" "''KEY''" sample_lib "RsaKey ''KEY''"
      sample_client_id_bytes sample_client_id, unfolded p]
  have "\<exists>d. load sample_lib sample_blob = Inr d
          \<and> dumpb sample_lib d = Inr (take (11 + length ''KEY'' + length sample_client_id_bytes) sample_blob
                @ [CHR 0x00, CHR 0x00])"
    using sample_client_id_decodes sample_client_id_serialized k
    by (simp add: sample_blob_def sample_client_id_bytes_def)
  with l show ?thesis by (simp add: sample_blob_def sample_client_id_bytes_def)
qed





end
